theory Spec2Isabelle
  imports Main
begin

section \<open>JavaScript values\<close>

text \<open>
  The engine passes values of TypeScript type \<open>any\<close> around (response bodies, response
  headers, the report). Acyclic values are trees: the JSON kinds, plus the kinds that
  \<open>JSON.stringify\<close> cannot encode (\<open>undefined\<close>, functions, carried with their source
  text, and BigInts). Numbers are modelled by integers and strings by lists of 8-bit
  characters; an object is the list of its own enumerable properties in enumeration order,
  and has no accessors and no \<open>toJSON\<close> of its own.
\<close>

datatype jsvalue =
    JNull
  | JUndefined
  | JBool bool
  | JNum int
  | JStr string
  | JBigInt int
  | JFunction string
  | JArr "jsvalue list"
  | JObj "(string \<times> jsvalue) list"

text \<open>What a \<open>throw\<close> carries: an \<open>Error\<close> of some class with its message, or any other value.\<close>

datatype js_error =
    TypeError string
  | RangeError string
  | SyntaxError string
  | Error string
  | Thrown jsvalue

fun digits :: "nat \<Rightarrow> string" where
  "digits n = (if n < 10 then [''0123456789'' ! n]
               else digits (n div 10) @ [''0123456789'' ! (n mod 10)])"

definition show_int :: "int \<Rightarrow> string" where
  "show_int i = (if i < 0 then CHR ''-'' # digits (nat (- i)) else digits (nat i))"

fun join :: "string \<Rightarrow> string list \<Rightarrow> string" where
  "join sep [] = []"
| "join sep [x] = x"
| "join sep (x # y # ys) = x @ sep @ join sep (y # ys)"

text \<open>\<open>String(v)\<close> and template-literal interpolation.\<close>

fun js_String :: "jsvalue \<Rightarrow> string" where
  "js_String JNull = ''null''"
| "js_String JUndefined = ''undefined''"
| "js_String (JBool b) = (if b then ''true'' else ''false'')"
| "js_String (JNum n) = show_int n"
| "js_String (JStr s) = s"
| "js_String (JBigInt n) = show_int n"
| "js_String (JFunction src) = src"
| "js_String (JArr xs) =
     join '','' (map (\<lambda>x. if x = JNull \<or> x = JUndefined then [] else js_String x) xs)"
| "js_String (JObj kvs) = ''[object Object]''"

fun js_typeof :: "jsvalue \<Rightarrow> string" where
  "js_typeof JUndefined = ''undefined''"
| "js_typeof (JBool b) = ''boolean''"
| "js_typeof (JNum n) = ''number''"
| "js_typeof (JStr s) = ''string''"
| "js_typeof (JBigInt n) = ''bigint''"
| "js_typeof (JFunction src) = ''function''"
| "js_typeof _ = ''object''"

fun js_truthy :: "jsvalue \<Rightarrow> bool" where
  "js_truthy JNull = False"
| "js_truthy JUndefined = False"
| "js_truthy (JBool b) = b"
| "js_truthy (JNum n) = (n \<noteq> 0)"
| "js_truthy (JStr s) = (s \<noteq> [])"
| "js_truthy (JBigInt n) = (n \<noteq> 0)"
| "js_truthy _ = True"

text \<open>The message read by \<open>error instanceof Error ? error.message : String(error)\<close>.\<close>

fun error_text :: "js_error \<Rightarrow> string" where
  "error_text (TypeError m) = m"
| "error_text (RangeError m) = m"
| "error_text (SyntaxError m) = m"
| "error_text (Error m) = m"
| "error_text (Thrown v) = js_String v"

subsection \<open>JSON.stringify\<close>

text \<open>
  \<open>JSON.stringify\<close> throws a TypeError on a BigInt that it reaches; \<open>undefined\<close> and
  functions do not make it throw: as a property value they are left out, as an array element
  they are written \<open>null\<close>, and at the top the call returns \<open>undefined\<close>.
\<close>

fun stringify_throws :: "jsvalue \<Rightarrow> bool" where
  "stringify_throws (JBigInt n) = True"
| "stringify_throws (JArr xs) = (\<exists>x \<in> set xs. stringify_throws x)"
| "stringify_throws (JObj kvs) = (\<exists>kv \<in> set kvs. stringify_throws (snd kv))"
| "stringify_throws _ = False"

definition hex_digit :: "nat \<Rightarrow> char" where
  "hex_digit n = ''0123456789abcdef'' ! (n mod 16)"

definition json_escape :: "char \<Rightarrow> string" where
  "json_escape c =
     (if c = CHR 0x22 then [CHR 0x5C, CHR 0x22]
      else if c = CHR 0x5C then [CHR 0x5C, CHR 0x5C]
      else if c = CHR 0x08 then [CHR 0x5C, CHR ''b'']
      else if c = CHR 0x0C then [CHR 0x5C, CHR ''f'']
      else if c = CHR 0x0A then [CHR 0x5C, CHR ''n'']
      else if c = CHR 0x0D then [CHR 0x5C, CHR ''r'']
      else if c = CHR 0x09 then [CHR 0x5C, CHR ''t'']
      else if (of_char c :: nat) < 32
        then [CHR 0x5C, CHR ''u'', CHR ''0'', CHR ''0'',
              hex_digit (of_char c div 16), hex_digit (of_char c mod 16)]
      else [c])"

definition json_quote :: "string \<Rightarrow> string" where
  "json_quote s = CHR 0x22 # concat (map json_escape s) @ [CHR 0x22]"

text \<open>The text \<open>JSON.stringify\<close> returns when it does not throw; \<open>None\<close> is \<open>undefined\<close>.\<close>

fun stringify_text :: "jsvalue \<Rightarrow> string option" where
  "stringify_text JNull = Some ''null''"
| "stringify_text JUndefined = None"
| "stringify_text (JBool b) = Some (if b then ''true'' else ''false'')"
| "stringify_text (JNum n) = Some (show_int n)"
| "stringify_text (JStr s) = Some (json_quote s)"
| "stringify_text (JBigInt n) = None"
| "stringify_text (JFunction src) = None"
| "stringify_text (JArr xs) =
     Some (''['' @ join '','' (map (\<lambda>x. case stringify_text x of None \<Rightarrow> ''null'' | Some t \<Rightarrow> t) xs)
           @ '']'')"
| "stringify_text (JObj kvs) =
     Some (''{'' @ join '',''
            (concat (map (\<lambda>kv. case stringify_text (snd kv) of
                                  None \<Rightarrow> []
                                | Some t \<Rightarrow> [json_quote (fst kv) @ '':'' @ t]) kvs))
           @ ''}'')"

definition JSON_stringify :: "jsvalue \<Rightarrow> js_error + string option" where
  "JSON_stringify v =
     (if stringify_throws v then Inl (TypeError ''Do not know how to serialize a BigInt'')
      else Inr (stringify_text v))"


section \<open>Serialization guard\<close>

text \<open>
  \<open>makeSerializable\<close> (the same text in apiTester.ts and securityTests.ts) on tree values,
  with no bound on the call stack. A value that \<open>JSON.stringify\<close> accepts is returned as
  it is. Otherwise \<open>typeof obj === 'object'\<close> holds of arrays and objects (\<open>null\<close> has
  returned before): an array is mapped element by element, an object is rebuilt key by key;
  every other kind is replaced by \<open>String(obj)\<close>. On trees no recursive call throws, so the
  \<open>catch\<close> around each key never runs here; \<open>makeSerializable_stk\<close> below keeps it.
\<close>

fun makeSerializable :: "jsvalue \<Rightarrow> jsvalue" where
  "makeSerializable obj =
     (if obj = JNull \<or> obj = JUndefined then obj
      else if \<not> stringify_throws obj then obj
      else (case obj of
              JArr xs \<Rightarrow> JArr (map makeSerializable xs)
            | JObj kvs \<Rightarrow> JObj (map (\<lambda>kv. (fst kv, makeSerializable (snd kv))) kvs)
            | _ \<Rightarrow> JStr (js_String obj)))"

declare makeSerializable.simps [simp del]

subsection \<open>Shared and cyclic structures, bounded call stack\<close>

text \<open>
  A cyclic structure is not a tree: a node may also be a reference to a cell of a heap, and
  a cell may hold references, also to itself. The call stack is finite: a call made with no
  frame left throws a RangeError, which JavaScript code can catch. \<open>d\<close> counts the frames
  left, one for each nested call.
\<close>

datatype node =
    NNull
  | NUndefined
  | NBool bool
  | NNum int
  | NStr string
  | NBigInt int
  | NFunction string
  | NArr "node list"
  | NObj "(string \<times> node) list"
  | NRef nat

datatype cell = CArr "node list" | CObj "(string \<times> node) list"

type_synonym heap = "nat \<Rightarrow> cell"

fun deref :: "heap \<Rightarrow> node \<Rightarrow> node" where
  "deref h (NRef a) = (case h a of CArr xs \<Rightarrow> NArr xs | CObj kvs \<Rightarrow> NObj kvs)"
| "deref h v = v"

fun node_typeof :: "node \<Rightarrow> string" where
  "node_typeof NUndefined = ''undefined''"
| "node_typeof (NBool b) = ''boolean''"
| "node_typeof (NNum n) = ''number''"
| "node_typeof (NStr s) = ''string''"
| "node_typeof (NBigInt n) = ''bigint''"
| "node_typeof (NFunction src) = ''function''"
| "node_typeof _ = ''object''"

fun node_String :: "node \<Rightarrow> string" where
  "node_String NNull = ''null''"
| "node_String NUndefined = ''undefined''"
| "node_String (NBool b) = (if b then ''true'' else ''false'')"
| "node_String (NNum n) = show_int n"
| "node_String (NStr s) = s"
| "node_String (NBigInt n) = show_int n"
| "node_String (NFunction src) = src"
| "node_String _ = ''[object Object]''"

text \<open>
  Whether \<open>JSON.stringify\<close> throws with \<open>d\<close> frames left: a TypeError on a BigInt and on
  an object met again below itself (\<open>seen\<close> holds the cells being written), a RangeError
  when the frames run out.
\<close>

fun stringify_throws_stk :: "heap \<Rightarrow> nat \<Rightarrow> nat list \<Rightarrow> node \<Rightarrow> bool" where
  "stringify_throws_stk h 0 seen v = True"
| "stringify_throws_stk h (Suc d) seen v =
     (case v of
        NBigInt n \<Rightarrow> True
      | NArr xs \<Rightarrow> (\<exists>x \<in> set xs. stringify_throws_stk h d seen x)
      | NObj kvs \<Rightarrow> (\<exists>kv \<in> set kvs. stringify_throws_stk h d seen (snd kv))
      | NRef a \<Rightarrow>
          a \<in> set seen \<or>
          (case h a of
             CArr xs \<Rightarrow> (\<exists>x \<in> set xs. stringify_throws_stk h d (a # seen) x)
           | CObj kvs \<Rightarrow> (\<exists>kv \<in> set kvs. stringify_throws_stk h d (a # seen) (snd kv)))
      | _ \<Rightarrow> False)"

text \<open>\<open>Array.prototype.map\<close> with a callback that may throw: the first throw ends it.\<close>

fun collect :: "(js_error + 'a) list \<Rightarrow> js_error + 'a list" where
  "collect [] = Inr []"
| "collect (Inl e # rs) = Inl e"
| "collect (Inr x # rs) = (case collect rs of Inl e \<Rightarrow> Inl e | Inr xs \<Rightarrow> Inr (x # xs))"

text \<open>
  \<open>makeSerializable\<close> with \<open>d\<close> frames left. The array branch calls itself from the
  callback of \<open>map\<close> with no \<open>try\<close> around it; the object branch wraps each key in
  \<open>try\<close>/\<open>catch\<close> and stores the placeholder when the call throws.
\<close>

fun makeSerializable_stk :: "heap \<Rightarrow> nat \<Rightarrow> node \<Rightarrow> js_error + node" where
  "makeSerializable_stk h 0 obj = Inl (RangeError ''Maximum call stack size exceeded'')"
| "makeSerializable_stk h (Suc d) obj =
     (if obj = NNull \<or> obj = NUndefined then Inr obj
      else if \<not> stringify_throws_stk h d [] obj then Inr obj
      else (case deref h obj of
              NArr xs \<Rightarrow>
                (case collect (map (makeSerializable_stk h d) xs) of
                   Inl e \<Rightarrow> Inl e
                 | Inr ys \<Rightarrow> Inr (NArr ys))
            | NObj kvs \<Rightarrow>
                Inr (NObj (map (\<lambda>kv.
                  (fst kv,
                   case makeSerializable_stk h d (snd kv) of
                     Inr r \<Rightarrow> r
                   | Inl e \<Rightarrow> NStr (''[Non-serializable '' @ node_typeof (deref h (snd kv)) @ '']'')))
                  kvs))
            | other \<Rightarrow> Inr (NStr (node_String other))))"

text \<open>Tree values among the nodes, and the nesting depth of a tree.\<close>

fun node_of :: "jsvalue \<Rightarrow> node" where
  "node_of JNull = NNull"
| "node_of JUndefined = NUndefined"
| "node_of (JBool b) = NBool b"
| "node_of (JNum n) = NNum n"
| "node_of (JStr s) = NStr s"
| "node_of (JBigInt n) = NBigInt n"
| "node_of (JFunction src) = NFunction src"
| "node_of (JArr xs) = NArr (map node_of xs)"
| "node_of (JObj kvs) = NObj (map (\<lambda>kv. (fst kv, node_of (snd kv))) kvs)"

fun maximum :: "nat list \<Rightarrow> nat" where
  "maximum [] = 0"
| "maximum (n # ns) = max n (maximum ns)"

fun depth :: "jsvalue \<Rightarrow> nat" where
  "depth (JArr xs) = Suc (maximum (map depth xs))"
| "depth (JObj kvs) = Suc (maximum (map (\<lambda>kv. depth (snd kv)) kvs))"
| "depth _ = 0"

subsection \<open>Tree values, bounded call stack\<close>

text \<open>
  A response body is a tree, but it can be nested to any depth, and then the call stack
  decides what the guard does. The same two functions on trees, with \<open>d\<close> frames left:
  \<open>JSON.stringify\<close> throws a RangeError when the frames run out, and so does a call of
  \<open>makeSerializable\<close> made with no frame left; the array branch lets it pass, the object
  branch catches it at each key.
\<close>

fun stringify_throws_frames :: "nat \<Rightarrow> jsvalue \<Rightarrow> bool" where
  "stringify_throws_frames 0 v = True"
| "stringify_throws_frames (Suc d) v =
     (case v of
        JBigInt n \<Rightarrow> True
      | JArr xs \<Rightarrow> (\<exists>x \<in> set xs. stringify_throws_frames d x)
      | JObj kvs \<Rightarrow> (\<exists>kv \<in> set kvs. stringify_throws_frames d (snd kv))
      | _ \<Rightarrow> False)"

fun makeSerializable_frames :: "nat \<Rightarrow> jsvalue \<Rightarrow> js_error + jsvalue" where
  "makeSerializable_frames 0 obj = Inl (RangeError ''Maximum call stack size exceeded'')"
| "makeSerializable_frames (Suc d) obj =
     (if obj = JNull \<or> obj = JUndefined then Inr obj
      else if \<not> stringify_throws_frames d obj then Inr obj
      else (case obj of
              JArr xs \<Rightarrow>
                (case collect (map (makeSerializable_frames d) xs) of
                   Inl e \<Rightarrow> Inl e
                 | Inr ys \<Rightarrow> Inr (JArr ys))
            | JObj kvs \<Rightarrow>
                Inr (JObj (map (\<lambda>kv.
                  (fst kv,
                   case makeSerializable_frames d (snd kv) of
                     Inr r \<Rightarrow> r
                   | Inl e \<Rightarrow> JStr (''[Non-serializable '' @ js_typeof (snd kv) @ '']'')))
                  kvs))
            | other \<Rightarrow> Inr (JStr (js_String other))))"

text \<open>
  \<open>JSON.stringify\<close> called with \<open>d\<close> frames left: the TypeError for a BigInt, the
  RangeError when the value is nested deeper than the frames reach, the text otherwise.
\<close>

definition JSON_stringify_frames :: "nat \<Rightarrow> jsvalue \<Rightarrow> js_error + string option" where
  "JSON_stringify_frames d v =
     (if stringify_throws v then Inl (TypeError ''Do not know how to serialize a BigInt'')
      else if stringify_throws_frames d v
        then Inl (RangeError ''Maximum call stack size exceeded'')
      else Inr (stringify_text v))"

text \<open>\<open>n\<close> arrays around a value: \<open>[[[ ... v ... ]]]\<close>.\<close>

fun nest :: "nat \<Rightarrow> jsvalue \<Rightarrow> jsvalue" where
  "nest 0 v = v"
| "nest (Suc n) v = JArr [nest n v]"

text \<open>A one-element array that contains itself: \<open>const a = []; a.push(a)\<close>.\<close>

definition cyclic_array_heap :: heap where
  "cyclic_array_heap = (\<lambda>a. CArr [NRef 0])"

text \<open>An object that refers to itself: \<open>const o = {}; o.self = o\<close>.\<close>

definition cyclic_object_heap :: heap where
  "cyclic_object_heap = (\<lambda>a. CObj [(''self'', NRef 0)])"

section \<open>Endpoints, requests and responses\<close>

datatype http_verb = GET | POST | PUT | DELETE | PATCH

fun method_name :: "http_verb \<Rightarrow> string" where
  "method_name GET = ''GET''"
| "method_name POST = ''POST''"
| "method_name PUT = ''PUT''"
| "method_name DELETE = ''DELETE''"
| "method_name PATCH = ''PATCH''"

text \<open>
  \<open>Record<string, string>\<close>: the properties of a plain object in enumeration order, each
  key once. Keys are compared as JavaScript compares property names: exactly.
\<close>

type_synonym headers_obj = "(string \<times> string) list"

record ApiEndpoint =
  url :: string
  http_method :: http_verb
  headers :: "headers_obj option"
  body :: "string option"

text \<open>\<open>{ ...obj }\<close>, \<open>delete obj[k]\<close> and \<open>obj[k] = v\<close> on such an object.\<close>

definition spread :: "headers_obj option \<Rightarrow> headers_obj" where
  "spread obj = (case obj of None \<Rightarrow> [] | Some h \<Rightarrow> h)"

definition obj_delete :: "string \<Rightarrow> headers_obj \<Rightarrow> headers_obj" where
  "obj_delete k h = filter (\<lambda>kv. fst kv \<noteq> k) h"

definition obj_set :: "string \<Rightarrow> string \<Rightarrow> headers_obj \<Rightarrow> headers_obj" where
  "obj_set k v h =
     (if k \<in> fst ` set h then map (\<lambda>kv. if fst kv = k then (k, v) else kv) h
      else h @ [(k, v)])"

text \<open>The configuration object handed to \<open>axios\<close>; \<open>validateStatus\<close> is always
  \<open>() => true\<close>, so every status code resolves.\<close>

record axios_config =
  cfg_method :: string
  cfg_url :: string
  cfg_headers :: "headers_obj option"
  cfg_data :: jsvalue
  cfg_timeout :: nat

record response =
  resp_status :: int
  resp_statusText :: string
  resp_headers :: jsvalue
  resp_data :: jsvalue

text \<open>
  How a call of \<open>axios\<close> ends: it resolves with a response, it rejects with an error for
  which \<open>axios.isAxiosError\<close> holds (every transport failure: timeout, DNS failure,
  connection refused, TLS failure), carrying \<open>error.response\<close> when there is one and
  \<open>error.message\<close>, or it throws something else.
\<close>

datatype axios_outcome =
    Resolved response
  | AxiosError "response option" string
  | OtherError js_error

datatype cls_item = Chr char | Range char char | Digit | Space

datatype regex =
    Lit string
  | Class "cls_item list"
  | NotClass "cls_item list"
  | WordBoundary
  | Seq "regex list"
  | Repeat regex nat "nat option"
  | RepeatLazy regex nat "nat option"

text \<open>
  What the program cannot decide by itself: how the \<open>k\<close>-th call of \<open>axios\<close> made by a
  task (the baseline request or a probe, by its id) ends, what \<open>JSON.parse\<close> makes of a
  text, what \<open>String.prototype.match\<close> finds for a regular expression with its flags,
  the differences of \<open>Date.now()\<close> a task measures, the clock, and the frames the call
  stack has left where a task hands a response body to the guard.
\<close>

record world =
  axios :: "string \<Rightarrow> nat \<Rightarrow> axios_config \<Rightarrow> axios_outcome"
  JSON_parse :: "string \<Rightarrow> js_error + jsvalue"
  regex_match :: "regex \<times> string \<Rightarrow> string \<Rightarrow> string list option"
  elapsed :: "string \<Rightarrow> int"
  now_iso :: string
  frames :: nat

definition safeJsonParse :: "world \<Rightarrow> string \<Rightarrow> jsvalue" where
  "safeJsonParse w str = (case JSON_parse w str of Inr v \<Rightarrow> v | Inl e \<Rightarrow> JNull)"

text \<open>\<open>a || b\<close> where \<open>a\<close> is \<open>error.response?.field\<close>.\<close>

definition or_else :: "'a option \<Rightarrow> ('a \<Rightarrow> bool) \<Rightarrow> 'a \<Rightarrow> 'a" where
  "or_else a truthy b = (case a of None \<Rightarrow> b | Some x \<Rightarrow> if truthy x then x else b)"

definition safeAxiosRequest :: "(axios_config \<Rightarrow> axios_outcome) \<Rightarrow> axios_config \<Rightarrow> js_error + response" where
  "safeAxiosRequest ax config =
     (case ax config of
        Resolved r \<Rightarrow> Inr r
      | AxiosError error_response message \<Rightarrow>
          Inr \<lparr> resp_status = or_else (map_option resp_status error_response) (\<lambda>n. n \<noteq> 0) 500,
                resp_statusText =
                  or_else (map_option resp_statusText error_response) (\<lambda>t. t \<noteq> []) ''Error'',
                resp_headers =
                  makeSerializable
                    (or_else (map_option resp_headers error_response) js_truthy (JObj [])),
                resp_data =
                  makeSerializable
                    (or_else (map_option resp_data error_response) js_truthy
                       (JObj [(''message'', JStr message)])) \<rparr>
      | OtherError error \<Rightarrow> Inl error)"

section \<open>Probes\<close>

datatype test_status = passed | failed | warning

datatype severity_level = low | medium | high | critical

record TestResult =
  name :: string
  status :: test_status
  description :: string
  details :: "string option"
  severity :: "severity_level option"

text \<open>
  A probe returns the requests it has handed to \<open>axios\<close>, in the order of the calls, and
  either its finding or what it throws.
\<close>

type_synonym probe_run = "world \<Rightarrow> ApiEndpoint \<Rightarrow> axios_config list \<times> (js_error + TestResult)"

record SecurityTest =
  test_id :: string
  test_name :: string
  test_description :: string
  run :: probe_run

text \<open>\<open>endpoint.body ? safeJsonParse(endpoint.body) : undefined\<close>, as every probe writes it.\<close>

definition probe_data :: "world \<Rightarrow> ApiEndpoint \<Rightarrow> jsvalue" where
  "probe_data w endpoint =
     (case body endpoint of
        None \<Rightarrow> JUndefined
      | Some b \<Rightarrow> if b \<noteq> [] then safeJsonParse w b else JUndefined)"

text \<open>The unmodified request of the sensitive-data, security-headers and rate-limit probes.\<close>

definition plain_config :: "world \<Rightarrow> ApiEndpoint \<Rightarrow> axios_config" where
  "plain_config w endpoint =
     \<lparr> cfg_method = method_name (http_method endpoint), cfg_url = url endpoint,
       cfg_headers = headers endpoint, cfg_data = probe_data w endpoint,
       cfg_timeout = 30000 \<rparr>"

text \<open>
  Reading a property: of \<open>null\<close> and \<open>undefined\<close> it throws a TypeError; of an object it
  gives the property or \<open>undefined\<close>; the header names asked for are no property of a value
  of another kind.
\<close>

definition nullish :: "jsvalue \<Rightarrow> bool" where
  "nullish v = (v = JNull \<or> v = JUndefined)"

fun js_prop :: "jsvalue \<Rightarrow> string \<Rightarrow> jsvalue" where
  "js_prop (JObj kvs) k = (case map_of kvs k of None \<Rightarrow> JUndefined | Some v \<Rightarrow> v)"
| "js_prop v k = JUndefined"

definition read_error :: "string \<Rightarrow> js_error" where
  "read_error k = TypeError (''Cannot read properties of undefined (reading ''
                              @ [CHR 0x27] @ k @ [CHR 0x27] @ '')'')"

subsection \<open>Authentication\<close>

definition auth_classify :: "response \<Rightarrow> TestResult" where
  "auth_classify response =
     (if resp_status response \<ge> 200 \<and> resp_status response < 300 then
        \<lparr> name = ''Authentication Check'', status = failed,
          description = ''API endpoint accessible without authentication'',
          details = Some (''Received status code '' @ show_int (resp_status response)
                          @ '' without authentication headers''),
          severity = Some high \<rparr>
      else if resp_status response = 401 \<or> resp_status response = 403 then
        \<lparr> name = ''Authentication Check'', status = passed,
          description = ''API properly requires authentication'',
          details = Some (''Received appropriate status code '' @ show_int (resp_status response)
                          @ '' when authentication was removed''),
          severity = None \<rparr>
      else
        \<lparr> name = ''Authentication Check'', status = warning,
          description = ''Unexpected response when testing authentication'',
          details = Some (''Received status code '' @ show_int (resp_status response)
                          @ '' which is neither a success nor an auth error''),
          severity = Some medium \<rparr>)"

definition authenticationTest_run :: probe_run where
  "authenticationTest_run w endpoint =
     (let strippedHeaders =
            obj_delete ''api-key''
              (obj_delete ''x-api-key''
                 (obj_delete ''Authorization'' (spread (headers endpoint))));
          config = \<lparr> cfg_method = method_name (http_method endpoint), cfg_url = url endpoint,
                     cfg_headers = Some strippedHeaders, cfg_data = probe_data w endpoint,
                     cfg_timeout = 30000 \<rparr>
      in ([config],
          Inr (case safeAxiosRequest (axios w ''auth-check'' 0) config of
                 Inr response \<Rightarrow> auth_classify response
               | Inl error \<Rightarrow>
                   \<lparr> name = ''Authentication Check'', status = warning,
                     description = ''Error occurred during authentication test'',
                     details = Some (error_text error), severity = Some medium \<rparr>)))"

definition authenticationTest :: SecurityTest where
  "authenticationTest =
     \<lparr> test_id = ''auth-check'', test_name = ''Authentication Check'',
       test_description = ''Checks if the API requires proper authentication'',
       run = authenticationTest_run \<rparr>"

text \<open>
  The same three statements on a store of objects, where \<open>endpoint.headers\<close> is a reference
  (or \<open>undefined\<close>): the spread allocates a new object, and each \<open>delete\<close> writes to the
  object its reference names.
\<close>

type_synonym store = "headers_obj list"

definition store_spread :: "store \<Rightarrow> nat option \<Rightarrow> store \<times> nat" where
  "store_spread s src = (s @ [case src of None \<Rightarrow> [] | Some a \<Rightarrow> s ! a], length s)"

definition store_delete :: "store \<Rightarrow> nat \<Rightarrow> string \<Rightarrow> store" where
  "store_delete s a k = s[a := obj_delete k (s ! a)]"

definition strip_auth_headers :: "store \<Rightarrow> nat option \<Rightarrow> store \<times> nat" where
  "strip_auth_headers s endpoint_headers =
     (let (s1, strippedHeaders) = store_spread s endpoint_headers;
          s2 = store_delete s1 strippedHeaders ''Authorization'';
          s3 = store_delete s2 strippedHeaders ''x-api-key'';
          s4 = store_delete s3 strippedHeaders ''api-key''
      in (s4, strippedHeaders))"

definition ascii_lower :: "char \<Rightarrow> char" where
  "ascii_lower c =
     (case map_of (zip ''ABCDEFGHIJKLMNOPQRSTUVWXYZ'' ''abcdefghijklmnopqrstuvwxyz'') c of
        None \<Rightarrow> c
      | Some l \<Rightarrow> l)"

definition lowercase :: "string \<Rightarrow> string" where
  "lowercase s = map ascii_lower s"

subsection \<open>Sensitive data\<close>

definition word_chars :: "cls_item list" where
  "word_chars = [Range CHR ''A'' CHR ''Z'', Range CHR ''a'' CHR ''z'', Range CHR ''0'' CHR ''9'']"

text \<open>\<open>name["']?\s*?:\s*?["']?[^"',\s]+\<close>, the shape of the four key/value patterns.\<close>

definition key_value_pattern :: "string \<Rightarrow> regex" where
  "key_value_pattern key =
     Seq [Lit key,
          Repeat (Class [Chr (CHR 0x22), Chr (CHR 0x27)]) 0 (Some 1),
          RepeatLazy (Class [Space]) 0 None,
          Lit '':'',
          RepeatLazy (Class [Space]) 0 None,
          Repeat (Class [Chr (CHR 0x22), Chr (CHR 0x27)]) 0 (Some 1),
          Repeat (NotClass [Chr (CHR 0x22), Chr (CHR 0x27), Chr CHR '','', Space]) 1 None]"

text \<open>The pattern table: the regular expression, its flags and the type it reports.\<close>

definition sensitivePatterns :: "((regex \<times> string) \<times> string) list" where
  "sensitivePatterns =
     [((Seq [WordBoundary,
             Repeat (Class (word_chars @ [Chr CHR ''.'', Chr CHR ''_'', Chr CHR ''%'',
                                          Chr CHR ''+'', Chr CHR ''-''])) 1 None,
             Lit ''@'',
             Repeat (Class (word_chars @ [Chr CHR ''.'', Chr CHR ''-''])) 1 None,
             Lit ''.'',
             Repeat (Class [Range CHR ''A'' CHR ''Z'', Range CHR ''a'' CHR ''z'']) 2 None,
             WordBoundary], ''g''), ''email''),
      ((Seq [WordBoundary,
             Repeat (Seq [Class [Digit],
                          RepeatLazy (Class [Chr CHR '' '', Chr CHR ''-'']) 0 None]) 13 (Some 16),
             WordBoundary], ''g''), ''possible credit card''),
      ((key_value_pattern ''password'', ''gi''), ''password''),
      ((key_value_pattern ''secret'', ''gi''), ''secret''),
      ((key_value_pattern ''token'', ''gi''), ''token''),
      ((key_value_pattern ''key'', ''gi''), ''key''),
      ((Seq [WordBoundary,
             Repeat (Class [Range CHR ''0'' CHR ''9'']) 3 (Some 3),
             Repeat (Class [Chr CHR ''-'']) 0 (Some 1),
             Repeat (Class [Range CHR ''0'' CHR ''9'']) 2 (Some 2),
             Repeat (Class [Chr CHR ''-'']) 0 (Some 1),
             Repeat (Class [Range CHR ''0'' CHR ''9'']) 4 (Some 4),
             WordBoundary], ''g''), ''SSN'')]"

text \<open>\<open>matches && matches.length > 0\<close>.\<close>

definition pattern_found :: "world \<Rightarrow> regex \<times> string \<Rightarrow> string \<Rightarrow> bool" where
  "pattern_found w pattern responseStr =
     (case regex_match w pattern responseStr of None \<Rightarrow> False | Some matches \<Rightarrow> length matches > 0)"

definition finding_line :: "string \<Rightarrow> string" where
  "finding_line type = ''Found possible '' @ type @ '' data in response''"

text \<open>The \<open>forEach\<close> over the table: one \<open>push\<close> for a pattern that is found.\<close>

definition sensitive_findings :: "world \<Rightarrow> string \<Rightarrow> string list" where
  "sensitive_findings w responseStr =
     concat (map (\<lambda>(pattern, type).
                    if pattern_found w pattern responseStr then [finding_line type] else [])
                 sensitivePatterns)"

text \<open>
  The body of the \<open>try\<close> after the request: the guard, then \<open>JSON.stringify\<close>, each with
  the frames the stack has left; what they throw leaves the body. \<open>JSON.stringify\<close> returns
  \<open>undefined\<close> for \<open>undefined\<close> and for a function; calling \<open>match\<close> on it throws a
  TypeError.
\<close>

definition sensitive_classify :: "world \<Rightarrow> response \<Rightarrow> js_error + TestResult" where
  "sensitive_classify w response =
     (case makeSerializable_frames (frames w) (resp_data response) of
        Inl error \<Rightarrow> Inl error
      | Inr safeData \<Rightarrow>
          (case JSON_stringify_frames (frames w) safeData of
             Inl error \<Rightarrow> Inl error
           | Inr None \<Rightarrow> Inl (read_error ''match'')
           | Inr (Some responseStr) \<Rightarrow>
               (let findings = sensitive_findings w responseStr in
                if length findings > 0 then
                  Inr \<lparr> name = ''Sensitive Data Exposure'', status = failed,
                        description = ''API may be exposing sensitive data'',
                        details = Some (join [CHR 0x0A] findings), severity = Some high \<rparr>
                else
                  Inr \<lparr> name = ''Sensitive Data Exposure'', status = passed,
                        description = ''No obvious sensitive data found in response'',
                        details = None, severity = None \<rparr>)))"

definition sensitiveDataTest_run :: probe_run where
  "sensitiveDataTest_run w endpoint =
     (let config = plain_config w endpoint;
          caught = (\<lambda>error.
            \<lparr> name = ''Sensitive Data Exposure'', status = warning,
              description = ''Error occurred during sensitive data test'',
              details = Some (error_text error), severity = Some medium \<rparr>)
      in ([config],
          Inr (case safeAxiosRequest (axios w ''sensitive-data'' 0) config of
                 Inl error \<Rightarrow> caught error
               | Inr response \<Rightarrow>
                   (case sensitive_classify w response of
                      Inl error \<Rightarrow> caught error
                    | Inr result \<Rightarrow> result))))"

definition sensitiveDataTest :: SecurityTest where
  "sensitiveDataTest =
     \<lparr> test_id = ''sensitive-data'', test_name = ''Sensitive Data Exposure'',
       test_description = ''Checks if the API exposes sensitive data in responses'',
       run = sensitiveDataTest_run \<rparr>"

subsection \<open>CORS\<close>

fun contains :: "string \<Rightarrow> string \<Rightarrow> bool" where
  "contains [] sub = (sub = [])"
| "contains (c # cs) sub = (take (length sub) (c # cs) = sub \<or> contains cs sub)"

text \<open>
  \<open>v?.includes(s)\<close>: \<open>undefined\<close> for \<open>null\<close> and \<open>undefined\<close>, the substring test of a
  string, the membership test of an array; on a value of another kind the call throws a
  TypeError.
\<close>

fun optional_includes :: "jsvalue \<Rightarrow> string \<Rightarrow> js_error + jsvalue" where
  "optional_includes JNull s = Inr JUndefined"
| "optional_includes JUndefined s = Inr JUndefined"
| "optional_includes (JStr t) s = Inr (JBool (contains t s))"
| "optional_includes (JArr xs) s = Inr (JBool (JStr s \<in> set xs))"
| "optional_includes v s = Inl (TypeError ''includes is not a function'')"

definition cors_classify :: "response \<Rightarrow> js_error + TestResult" where
  "cors_classify response =
     (if nullish (resp_headers response) then Inl (read_error ''access-control-allow-origin'')
      else
        let allowOrigin = js_prop (resp_headers response) ''access-control-allow-origin'';
            allowCredentials = js_prop (resp_headers response) ''access-control-allow-credentials'';
            hasWildcard = (allowOrigin = JStr ''*'');
            allowsCredentials = (allowCredentials = JStr ''true'')
        in if hasWildcard \<and> allowsCredentials then
             Inr \<lparr> name = ''CORS Configuration'', status = failed,
                   description = ''Insecure CORS configuration detected'',
                   details = Some ''API allows wildcard origin (*) with credentials, which is a security risk'',
                   severity = Some high \<rparr>
           else if hasWildcard then
             Inr \<lparr> name = ''CORS Configuration'', status = warning,
                   description = ''Permissive CORS configuration'',
                   details = Some ''API allows requests from any origin (*)'',
                   severity = Some medium \<rparr>
           else
             (case optional_includes allowOrigin ''malicious-site.example.com'' of
                Inl error \<Rightarrow> Inl error
              | Inr reflected \<Rightarrow>
                  if js_truthy reflected then
                    Inr \<lparr> name = ''CORS Configuration'', status = failed,
                          description = ''CORS validation issue'',
                          details = Some ''API accepts requests from untrusted origins'',
                          severity = Some high \<rparr>
                  else if \<not> js_truthy allowOrigin then
                    Inr \<lparr> name = ''CORS Configuration'', status = passed,
                          description = ''No CORS headers found or CORS is properly restricted'',
                          details = None, severity = None \<rparr>
                  else
                    Inr \<lparr> name = ''CORS Configuration'', status = passed,
                          description = ''CORS appears to be properly configured'',
                          details = Some (''Origin: '' @ js_String allowOrigin),
                          severity = None \<rparr>))"

definition cors_config :: "ApiEndpoint \<Rightarrow> axios_config" where
  "cors_config endpoint =
     \<lparr> cfg_method = ''OPTIONS'', cfg_url = url endpoint,
       cfg_headers =
         Some (obj_set ''Access-Control-Request-Method'' (method_name (http_method endpoint))
                 (obj_set ''Origin'' ''https://malicious-site.example.com''
                    (spread (headers endpoint)))),
       cfg_data = JUndefined, cfg_timeout = 30000 \<rparr>"

definition corsTest_run :: probe_run where
  "corsTest_run w endpoint =
     (let config = cors_config endpoint;
          caught = (\<lambda>error.
            \<lparr> name = ''CORS Configuration'', status = warning,
              description = ''Error occurred during CORS test'',
              details = Some (error_text error), severity = Some low \<rparr>)
      in ([config],
          Inr (case safeAxiosRequest (axios w ''cors-check'' 0) config of
                 Inl error \<Rightarrow> caught error
               | Inr response \<Rightarrow>
                   (case cors_classify response of
                      Inl error \<Rightarrow> caught error
                    | Inr result \<Rightarrow> result))))"

definition corsTest :: SecurityTest where
  "corsTest =
     \<lparr> test_id = ''cors-check'', test_name = ''CORS Configuration'',
       test_description = ''Checks for CORS misconfiguration'',
       run = corsTest_run \<rparr>"

subsection \<open>Security headers\<close>

text \<open>The names of the headers whose value is missing or empty, in the order of the table.\<close>

definition missingHeaders :: "jsvalue \<Rightarrow> string list" where
  "missingHeaders response_headers =
     (let securityHeaders =
            [(''Strict-Transport-Security'', js_prop response_headers ''strict-transport-security''),
             (''Content-Security-Policy'', js_prop response_headers ''content-security-policy''),
             (''X-Content-Type-Options'', js_prop response_headers ''x-content-type-options''),
             (''X-Frame-Options'', js_prop response_headers ''x-frame-options''),
             (''X-XSS-Protection'', js_prop response_headers ''x-xss-protection'')]
      in map fst (filter (\<lambda>kv. \<not> js_truthy (snd kv)) securityHeaders))"

definition securityHeaders_result :: "string list \<Rightarrow> TestResult" where
  "securityHeaders_result missing =
     (if length missing = 0 then
        \<lparr> name = ''Security Headers'', status = passed,
          description = ''All recommended security headers are present'',
          details = None, severity = None \<rparr>
      else if length missing \<le> 2 then
        \<lparr> name = ''Security Headers'', status = warning,
          description = ''Some recommended security headers are missing'',
          details = Some (''Missing headers: '' @ join '', '' missing),
          severity = Some medium \<rparr>
      else
        \<lparr> name = ''Security Headers'', status = failed,
          description = ''Multiple important security headers are missing'',
          details = Some (''Missing headers: '' @ join '', '' missing),
          severity = Some high \<rparr>)"

definition securityHeaders_classify :: "response \<Rightarrow> js_error + TestResult" where
  "securityHeaders_classify response =
     (if nullish (resp_headers response) then Inl (read_error ''strict-transport-security'')
      else Inr (securityHeaders_result (missingHeaders (resp_headers response))))"

definition securityHeadersTest_run :: probe_run where
  "securityHeadersTest_run w endpoint =
     (let config = plain_config w endpoint;
          caught = (\<lambda>error.
            \<lparr> name = ''Security Headers'', status = warning,
              description = ''Error occurred during security headers test'',
              details = Some (error_text error), severity = Some low \<rparr>)
      in ([config],
          Inr (case safeAxiosRequest (axios w ''security-headers'' 0) config of
                 Inl error \<Rightarrow> caught error
               | Inr response \<Rightarrow>
                   (case securityHeaders_classify response of
                      Inl error \<Rightarrow> caught error
                    | Inr result \<Rightarrow> result))))"

definition securityHeadersTest :: SecurityTest where
  "securityHeadersTest =
     \<lparr> test_id = ''security-headers'', test_name = ''Security Headers'',
       test_description = ''Checks for important security headers'',
       run = securityHeadersTest_run \<rparr>"

subsection \<open>Rate limiting\<close>

definition rateLimitHeaders :: "string list" where
  "rateLimitHeaders =
     [''x-rate-limit-limit'', ''x-rate-limit-remaining'', ''x-rate-limit-reset'', ''retry-after'',
      ''ratelimit-limit'', ''ratelimit-remaining'', ''ratelimit-reset'']"

definition rateLimit_classify :: "int \<Rightarrow> response list \<Rightarrow> TestResult" where
  "rateLimit_classify totalTime responses =
     (let hasRateLimitHeaders =
            (\<exists>response \<in> set responses.
               js_truthy (resp_headers response) \<and>
               (\<exists>header \<in> set rateLimitHeaders. js_truthy (js_prop (resp_headers response) header)));
          hasRateLimitStatus =
            (\<exists>response \<in> set responses. resp_status response = 429 \<or> resp_status response = 503)
      in if hasRateLimitStatus then
           \<lparr> name = ''Rate Limiting'', status = passed,
             description = ''API implements rate limiting (received 429 Too Many Requests)'',
             details = Some ''Rate limiting is properly enforced'', severity = None \<rparr>
         else if hasRateLimitHeaders then
           \<lparr> name = ''Rate Limiting'', status = passed,
             description = ''API includes rate limit headers'',
             details = Some ''Rate limiting appears to be implemented'', severity = None \<rparr>
         else if totalTime < 1000 \<and> (\<forall>r \<in> set responses. resp_status r < 400) then
           \<lparr> name = ''Rate Limiting'', status = warning,
             description = ''No rate limiting detected'',
             details = Some ''API processed multiple requests quickly without rate limiting'',
             severity = Some medium \<rparr>
         else
           \<lparr> name = ''Rate Limiting'', status = warning,
             description = ''Rate limiting status unclear'',
             details = Some ''Could not definitively determine if rate limiting is implemented'',
             severity = Some low \<rparr>)"

text \<open>
  Five calls are made before any is awaited; \<open>Promise.all\<close> rejects when one of them
  rejects (here: the first in the order of the calls).
\<close>

definition rateLimitTest_run :: probe_run where
  "rateLimitTest_run w endpoint =
     (let config = plain_config w endpoint;
          requests = map (\<lambda>i. safeAxiosRequest (axios w ''rate-limit'' i) config) [0 ..< 5]
      in (replicate 5 config,
          Inr (case collect requests of
                 Inl error \<Rightarrow>
                   \<lparr> name = ''Rate Limiting'', status = warning,
                     description = ''Error occurred during rate limit test'',
                     details = Some (error_text error), severity = Some low \<rparr>
               | Inr responses \<Rightarrow> rateLimit_classify (elapsed w ''rate-limit'') responses)))"

definition rateLimitTest :: SecurityTest where
  "rateLimitTest =
     \<lparr> test_id = ''rate-limit'', test_name = ''Rate Limiting'',
       test_description = ''Checks if the API implements rate limiting'',
       run = rateLimitTest_run \<rparr>"

definition allTests :: "SecurityTest list" where
  "allTests = [authenticationTest, sensitiveDataTest, corsTest, securityHeadersTest, rateLimitTest]"

section \<open>Regular expressions\<close>

text \<open>
  \<open>String.prototype.match\<close> with a global regular expression, as the backtracking matcher
  of the language computes it. \<open>regex_ends\<close> lists the positions where a match of the
  expression that starts at \<open>i\<close> can end, in the order in which backtracking tries them: the
  first is the match found. A greedy repetition tries one more round first, a lazy one
  tries to stop first; once the minimum is reached, a round that matches the empty string is
  rejected. With flag \<open>i\<close> characters are compared up to the case of ASCII letters.
  Among the 8-bit characters the white-space class holds the six ASCII blanks and the
  no-break space.
\<close>

definition ascii_upper :: "char \<Rightarrow> char" where
  "ascii_upper c =
     (case map_of (zip ''abcdefghijklmnopqrstuvwxyz'' ''ABCDEFGHIJKLMNOPQRSTUVWXYZ'') c of
        None \<Rightarrow> c
      | Some u \<Rightarrow> u)"

fun in_item :: "char \<Rightarrow> cls_item \<Rightarrow> bool" where
  "in_item c (Chr x) = (c = x)"
| "in_item c (Range lo hi) = ((of_char lo :: nat) \<le> of_char c \<and> (of_char c :: nat) \<le> of_char hi)"
| "in_item c Digit = (c \<in> set ''0123456789'')"
| "in_item c Space =
     (c \<in> set [CHR '' '', CHR 0x09, CHR 0x0A, CHR 0x0B, CHR 0x0C, CHR 0x0D, CHR 0xA0])"

definition in_class :: "bool \<Rightarrow> cls_item list \<Rightarrow> char \<Rightarrow> bool" where
  "in_class ignore_case items c =
     (\<exists>item \<in> set items.
        in_item c item \<or>
        (ignore_case \<and> (in_item (ascii_lower c) item \<or> in_item (ascii_upper c) item)))"

definition word_char :: "char \<Rightarrow> bool" where
  "word_char c = (in_class False word_chars c \<or> c = CHR ''_'')"

definition word_boundary :: "string \<Rightarrow> nat \<Rightarrow> bool" where
  "word_boundary s i =
     ((i > 0 \<and> i - 1 < length s \<and> word_char (s ! (i - 1)))
      \<noteq> (i < length s \<and> word_char (s ! i)))"

fun repeat_ends ::
  "(nat \<Rightarrow> nat list) \<Rightarrow> bool \<Rightarrow> nat \<Rightarrow> nat \<Rightarrow> nat option \<Rightarrow> nat \<Rightarrow> nat list" where
  "repeat_ends step lazy 0 m n i = (if m = 0 then [i] else [])"
| "repeat_ends step lazy (Suc rounds) m n i =
     (let again = (if n = Some 0 then []
                   else concat (map (\<lambda>j. if j = i \<and> m = 0 then []
                                          else repeat_ends step lazy rounds (m - 1)
                                                 (map_option (\<lambda>k. k - 1) n) j)
                                    (step i)));
          stop = (if m = 0 then [i] else [])
      in if lazy then stop @ again else again @ stop)"

fun regex_ends :: "bool \<Rightarrow> string \<Rightarrow> regex \<Rightarrow> nat \<Rightarrow> nat list" where
  "regex_ends ic s (Lit l) i =
     (if take (length l) (drop i s) = l
         \<or> ic \<and> map ascii_lower (take (length l) (drop i s)) = map ascii_lower l
      then [i + length l] else [])"
| "regex_ends ic s (Class items) i =
     (if i < length s \<and> in_class ic items (s ! i) then [Suc i] else [])"
| "regex_ends ic s (NotClass items) i =
     (if i < length s \<and> \<not> in_class ic items (s ! i) then [Suc i] else [])"
| "regex_ends ic s WordBoundary i = (if word_boundary s i then [i] else [])"
| "regex_ends ic s (Seq []) i = [i]"
| "regex_ends ic s (Seq (r # rs)) i =
     concat (map (regex_ends ic s (Seq rs)) (regex_ends ic s r i))"
| "regex_ends ic s (Repeat r m n) i =
     repeat_ends (\<lambda>j. regex_ends ic s r j) False (m + length s + 1) m n i"
| "regex_ends ic s (RepeatLazy r m n) i =
     repeat_ends (\<lambda>j. regex_ends ic s r j) True (m + length s + 1) m n i"

text \<open>The leftmost start at or after \<open>i\<close> with a match, among the next \<open>k\<close> positions.\<close>

fun first_match :: "bool \<Rightarrow> string \<Rightarrow> regex \<Rightarrow> nat \<Rightarrow> nat \<Rightarrow> (nat \<times> nat) option" where
  "first_match ic s r 0 i = None"
| "first_match ic s r (Suc k) i =
     (case regex_ends ic s r i of
        e # es \<Rightarrow> Some (i, e)
      | [] \<Rightarrow> first_match ic s r k (Suc i))"

text \<open>The matches from \<open>lastIndex\<close> on; after an empty match \<open>lastIndex\<close> moves by one.\<close>

fun match_all :: "bool \<Rightarrow> string \<Rightarrow> regex \<Rightarrow> nat \<Rightarrow> nat \<Rightarrow> string list" where
  "match_all ic s r 0 lastIndex = []"
| "match_all ic s r (Suc k) lastIndex =
     (case first_match ic s r (Suc (length s) - lastIndex) lastIndex of
        None \<Rightarrow> []
      | Some (i, e) \<Rightarrow>
          take (e - i) (drop i s) # match_all ic s r k (if e = i then Suc e else e))"

definition js_match :: "regex \<times> string \<Rightarrow> string \<Rightarrow> string list option" where
  "js_match pattern s =
     (let matches = match_all (CHR ''i'' \<in> set (snd pattern)) s (fst pattern) (Suc (length s)) 0
      in if matches = [] then None else Some matches)"

section \<open>Scan orchestrator\<close>

record ScanResult =
  endpoint :: ApiEndpoint
  timestamp :: string
  results :: "TestResult list"
  rawResponse :: jsvalue
  responseTime :: int
  statusCode :: "int option"

text \<open>The objects as JavaScript values; an optional field that was not set is no property.\<close>

definition ApiEndpoint_js :: "ApiEndpoint \<Rightarrow> jsvalue" where
  "ApiEndpoint_js e =
     JObj ([(''url'', JStr (url e)), (''method'', JStr (method_name (http_method e)))]
           @ (case headers e of
                None \<Rightarrow> []
              | Some h \<Rightarrow> [(''headers'', JObj (map (\<lambda>kv. (fst kv, JStr (snd kv))) h))])
           @ (case body e of None \<Rightarrow> [] | Some b \<Rightarrow> [(''body'', JStr b)]))"

fun status_name :: "test_status \<Rightarrow> string" where
  "status_name passed = ''passed''"
| "status_name failed = ''failed''"
| "status_name warning = ''warning''"

fun severity_name :: "severity_level \<Rightarrow> string" where
  "severity_name low = ''low''"
| "severity_name medium = ''medium''"
| "severity_name high = ''high''"
| "severity_name critical = ''critical''"

definition TestResult_js :: "TestResult \<Rightarrow> jsvalue" where
  "TestResult_js r =
     JObj ([(''name'', JStr (name r)), (''status'', JStr (status_name (status r))),
            (''description'', JStr (description r))]
           @ (case details r of None \<Rightarrow> [] | Some d \<Rightarrow> [(''details'', JStr d)])
           @ (case severity r of None \<Rightarrow> [] | Some v \<Rightarrow> [(''severity'', JStr (severity_name v))]))"

definition ScanResult_js :: "ScanResult \<Rightarrow> jsvalue" where
  "ScanResult_js r =
     JObj [(''endpoint'', ApiEndpoint_js (endpoint r)),
           (''timestamp'', JStr (timestamp r)),
           (''results'', JArr (map TestResult_js (results r))),
           (''rawResponse'', rawResponse r),
           (''responseTime'', JNum (responseTime r)),
           (''statusCode'', case statusCode r of None \<Rightarrow> JUndefined | Some n \<Rightarrow> JNum n)]"

text \<open>
  The initial request. \<open>JSON.parse(endpoint.body)\<close> is evaluated inside the \<open>try\<close>, while
  the configuration is built: when it throws, \<open>axios\<close> is not called. Every error is
  caught and its message kept as the raw response, also the one the guard throws on the
  response body, after the status code is stored. The result: the requests made, the
  status code and the raw response.
\<close>

definition initial_request :: "world \<Rightarrow> ApiEndpoint \<Rightarrow> axios_config list \<times> int option \<times> jsvalue" where
  "initial_request w e =
     (case (case body e of
              None \<Rightarrow> Inr JUndefined
            | Some b \<Rightarrow> if b \<noteq> [] then JSON_parse w b else Inr JUndefined) of
        Inl error \<Rightarrow> ([], None, JObj [(''error'', JStr (error_text error))])
      | Inr parsed \<Rightarrow>
          (let config = \<lparr> cfg_method = method_name (http_method e), cfg_url = url e,
                            cfg_headers = headers e, cfg_data = parsed,
                            cfg_timeout = 30000 \<rparr>
           in case axios w ''baseline'' 0 config of
                Resolved response \<Rightarrow>
                  (case makeSerializable_frames (frames w) (resp_data response) of
                     Inr safe \<Rightarrow> ([config], Some (resp_status response), safe)
                   | Inl error \<Rightarrow>
                       ([config], Some (resp_status response),
                        JObj [(''error'', JStr (error_text error))]))
              | AxiosError error_response message \<Rightarrow>
                  ([config], None, JObj [(''error'', JStr message)])
              | OtherError error \<Rightarrow>
                  ([config], None, JObj [(''error'', JStr (error_text error))])))"

definition testsToRun :: "SecurityTest list \<Rightarrow> string list \<Rightarrow> SecurityTest list" where
  "testsToRun tests selectedTests =
     (if length selectedTests > 0 then filter (\<lambda>test. test_id test \<in> set selectedTests) tests
      else tests)"

text \<open>The wrapper around each probe: what it throws becomes the fallback result.\<close>

definition run_test :: "world \<Rightarrow> ApiEndpoint \<Rightarrow> SecurityTest \<Rightarrow> TestResult" where
  "run_test w e test =
     (case snd (run test w e) of
        Inr result \<Rightarrow> result
      | Inl error \<Rightarrow>
          \<lparr> name = test_name test, status = warning, description = ''Test execution failed'',
            details = Some (error_text error), severity = Some medium \<rparr>)"

text \<open>
  \<open>Promise.all\<close> over the mapped array gives the results in the order of \<open>testsToRun\<close>,
  whatever the order in which the probes finish.
\<close>

definition scan_result :: "SecurityTest list \<Rightarrow> world \<Rightarrow> ApiEndpoint \<Rightarrow> string list \<Rightarrow> ScanResult" where
  "scan_result tests w e selectedTests =
     \<lparr> endpoint = e, timestamp = now_iso w,
       results = map (run_test w e) (testsToRun tests selectedTests),
       rawResponse = snd (snd (initial_request w e)),
       responseTime = elapsed w ''scan'',
       statusCode = fst (snd (initial_request w e)) \<rparr>"

text \<open>
  \<open>runApiTest\<close>, with the registry \<open>allTests\<close> as a parameter: the requests made, and the
  report after the final guard, or what the call throws.
\<close>

definition runApiTest ::
  "SecurityTest list \<Rightarrow> world \<Rightarrow> ApiEndpoint \<Rightarrow> string list \<Rightarrow> axios_config list \<times> (js_error + jsvalue)" where
  "runApiTest tests w e selectedTests =
     (fst (initial_request w e)
        @ concat (map (\<lambda>test. fst (run test w e)) (testsToRun tests selectedTests)),
      Inr (makeSerializable (ScanResult_js (scan_result tests w e selectedTests))))"

section \<open>A concrete world\<close>

text \<open>
  An endpoint that answers every request with status 200 and a body that holds a password,
  and allows every origin; a caller that sends its token under a lower-case header name.
  \<open>JSON.parse\<close> is only asked about two texts here: it accepts \<open>{}\<close> and rejects the
  text \<open>{broken\<close>, as it rejects every text that is not JSON.
\<close>

definition demo_response :: response where
  "demo_response =
     \<lparr> resp_status = 200, resp_statusText = ''OK'',
       resp_headers = JObj [(''content-type'', JStr ''application/json''),
                            (''access-control-allow-origin'', JStr ''*'')],
       resp_data = JObj [(''password'', JStr ''abc123'')] \<rparr>"

definition demo_world :: world where
  "demo_world =
     \<lparr> axios = (\<lambda>task k config. Resolved demo_response),
       JSON_parse = (\<lambda>text. if text = ''{}'' then Inr (JObj [])
                             else Inl (SyntaxError ''Unexpected token b in JSON at position 1'')),
       regex_match = js_match,
       elapsed = (\<lambda>task. 120),
       now_iso = ''2024-05-01T12:00:00.000Z'',
       frames = 10000 \<rparr>"

definition demo_endpoint :: ApiEndpoint where
  "demo_endpoint =
     \<lparr> url = ''https://api.example.com/v1/resource'', http_method = GET,
       headers = Some [(''authorization'', ''Bearer token''), (''Accept'', ''*/*'')],
       body = None \<rparr>"

definition bad_body_endpoint :: ApiEndpoint where
  "bad_body_endpoint =
     \<lparr> url = ''https://api.example.com/v1/resource'', http_method = POST,
       headers = None, body = Some ''{broken'' \<rparr>"

text \<open>The same world with an endpoint whose body holds nothing sensitive.\<close>

definition clean_response :: response where
  "clean_response =
     \<lparr> resp_status = 200, resp_statusText = ''OK'',
       resp_headers = JObj [(''content-type'', JStr ''application/json'')],
       resp_data = JObj [(''id'', JNum 1)] \<rparr>"

definition clean_world :: world where
  "clean_world = demo_world\<lparr> axios := (\<lambda>task k config. Resolved clean_response) \<rparr>"

text \<open>
  The same world with an endpoint whose body is valid JSON nested deeper than the stack has
  frames: ten thousand arrays around a password.
\<close>

definition deep_response :: response where
  "deep_response =
     \<lparr> resp_status = 200, resp_statusText = ''OK'',
       resp_headers = JObj [(''content-type'', JStr ''application/json'')],
       resp_data = nest 10000 (JObj [(''password'', JStr ''abc123'')]) \<rparr>"

definition deep_world :: world where
  "deep_world = demo_world\<lparr> axios := (\<lambda>task k config. Resolved deep_response) \<rparr>"

text \<open>A preflight response with the given headers.\<close>

definition cors_response :: "(string \<times> jsvalue) list \<Rightarrow> response" where
  "cors_response hs =
     \<lparr> resp_status = 204, resp_statusText = ''No Content'', resp_headers = JObj hs,
       resp_data = JStr [] \<rparr>"

text \<open>A transport that refuses every connection.\<close>

definition refused :: "axios_config \<Rightarrow> axios_outcome" where
  "refused config = AxiosError None ''connect ECONNREFUSED 127.0.0.1:443''"

text \<open>A probe that always throws.\<close>

definition failingTest :: SecurityTest where
  "failingTest =
     \<lparr> test_id = ''always-fails'', test_name = ''Always Fails'',
       test_description = ''Throws before it makes a request'',
       run = (\<lambda>w e. ([], Inl (Error ''probe crashed''))) \<rparr>"

section \<open>Properties\<close>

subsection \<open>Serialization guard\<close>

lemma makeSerializable_unfold:
  "stringify_throws obj \<Longrightarrow> makeSerializable obj =
     (case obj of
        JArr xs \<Rightarrow> JArr (map makeSerializable xs)
      | JObj kvs \<Rightarrow> JObj (map (\<lambda>kv. (fst kv, makeSerializable (snd kv))) kvs)
      | _ \<Rightarrow> JStr (js_String obj))"
  by (subst makeSerializable.simps) auto

lemma makeSerializable_fixed: "\<not> stringify_throws v \<Longrightarrow> makeSerializable v = v"
  by (simp add: makeSerializable.simps)

lemma makeSerializable_no_throw: "\<not> stringify_throws (makeSerializable v)"
proof (induction v rule: makeSerializable.induct)
  case (1 obj)
  show ?case
  proof (cases "stringify_throws obj")
    case False
    then show ?thesis by (simp add: makeSerializable_fixed)
  next
    case True
    then have nn: "\<not> (obj = JNull \<or> obj = JUndefined)" "\<not> \<not> stringify_throws obj" by auto
    show ?thesis
    proof (cases obj)
      case (JArr xs)
      then show ?thesis using 1(1)[OF nn JArr] True
        by (simp add: makeSerializable_unfold)
    next
      case (JObj kvs)
      then show ?thesis using 1(2)[OF nn JObj] True
        by (simp add: makeSerializable_unfold)
    qed (use True in \<open>simp_all add: makeSerializable_unfold\<close>)
  qed
qed

text \<open>On acyclic values a second pass of the guard changes nothing.\<close>

lemma makeSerializable_idem: "makeSerializable (makeSerializable v) = makeSerializable v"
  by (rule makeSerializable_fixed) (rule makeSerializable_no_throw)

lemma maximum_ge: "x \<in> set ns \<Longrightarrow> x \<le> maximum ns"
  by (induction ns) auto

lemma depth_elem: "x \<in> set xs \<Longrightarrow> depth x < depth (JArr xs)"
  using maximum_ge[of "depth x" "map depth xs"] by auto

lemma depth_prop: "kv \<in> set kvs \<Longrightarrow> depth (snd kv) < depth (JObj kvs)"
  using maximum_ge[of "depth (snd kv)" "map (\<lambda>kv. depth (snd kv)) kvs"] by auto


lemma collect_map_Inr:
  "(\<And>x. x \<in> set xs \<Longrightarrow> g x = Inr (f x)) \<Longrightarrow> collect (map g xs) = Inr (map f xs)"
  by (induction xs) auto

lemma node_of_simple:
  "node_of v = NNull \<longleftrightarrow> v = JNull" "node_of v = NUndefined \<longleftrightarrow> v = JUndefined"
  by (cases v; simp)+


lemma cyclic_array_stringify: "stringify_throws_stk cyclic_array_heap d [] (NRef 0)"
proof (cases d)
  case 0
  then show ?thesis by simp
next
  case (Suc d')
  then show ?thesis by (cases d') (simp_all add: cyclic_array_heap_def)
qed

text \<open>
  The guard on trees with a bounded stack: with frames enough for the depth of the value it
  returns what \<open>makeSerializable\<close> computes; whenever it returns, \<open>JSON.stringify\<close> finds
  no BigInt in the result; and it raises on arrays nested as deep as the frames reach.
\<close>

lemma stringify_throws_frames_enough:
  "depth v < d \<Longrightarrow> stringify_throws_frames d v = stringify_throws v"
proof (induction v arbitrary: d)
  case (JArr xs)
  then obtain d' where d: "d = Suc d'" by (cases d) auto
  have "\<And>x. x \<in> set xs \<Longrightarrow> depth x < d'"
    using JArr.prems d depth_elem by fastforce
  then show ?case using JArr.IH d by simp
next
  case (JObj kvs)
  then obtain d' where d: "d = Suc d'" by (cases d) auto
  have "\<And>kv. kv \<in> set kvs \<Longrightarrow> depth (snd kv) < d'"
    using JObj.prems d depth_prop by fastforce
  then show ?case using JObj.IH d
    by (auto simp: snds.simps)
qed (case_tac d; simp)+

lemma stringify_throws_frames_covers:
  "stringify_throws v \<Longrightarrow> stringify_throws_frames d v"
proof (induction d arbitrary: v)
  case 0
  show ?case by simp
next
  case (Suc d)
  then show ?case by (cases v) auto
qed

lemma makeSerializable_frames_enough:
  "Suc (depth v) < d \<Longrightarrow> makeSerializable_frames d v = Inr (makeSerializable v)"
proof (induction v arbitrary: d rule: makeSerializable.induct)
  case (1 obj)
  from "1.prems" obtain d' where d: "d = Suc d'" and dd: "depth obj < d'" by (cases d) auto
  note st = stringify_throws_frames_enough[OF dd]
  show ?case
  proof (cases "stringify_throws obj")
    case False
    then have "makeSerializable obj = obj" by (rule makeSerializable_fixed)
    then show ?thesis using d st False by simp
  next
    case True
    then have nn: "\<not> (obj = JNull \<or> obj = JUndefined)" "\<not> \<not> stringify_throws obj" by auto
    show ?thesis
    proof (cases obj)
      case (JArr xs)
      have "\<And>x. x \<in> set xs \<Longrightarrow> makeSerializable_frames d' x = Inr (makeSerializable x)"
        using "1.IH"(1)[OF nn JArr] depth_elem[of _ xs] dd JArr by fastforce
      then have "collect (map (makeSerializable_frames d') xs) = Inr (map makeSerializable xs)"
        by (rule collect_map_Inr)
      then show ?thesis using True JArr d st
        by (simp add: makeSerializable_unfold)
    next
      case (JObj kvs)
      have "\<And>kv. kv \<in> set kvs \<Longrightarrow>
              makeSerializable_frames d' (snd kv) = Inr (makeSerializable (snd kv))"
        using "1.IH"(2)[OF nn JObj] depth_prop[of _ kvs] dd JObj by fastforce
      then show ?thesis using True JObj d st
        by (simp add: makeSerializable_unfold)
    qed (use True d st in \<open>simp_all add: makeSerializable_unfold\<close>)
  qed
qed

lemma collect_Inr_set:
  "collect rs = Inr ys \<Longrightarrow> y \<in> set ys \<Longrightarrow> Inr y \<in> set rs"
proof (induction rs arbitrary: ys)
  case Nil
  then show ?case by simp
next
  case (Cons r rs)
  then show ?case by (cases r) (auto split: sum.splits)
qed

lemma makeSerializable_frames_no_throw:
  "makeSerializable_frames d v = Inr r \<Longrightarrow> \<not> stringify_throws r"
proof (induction d arbitrary: v r)
  case 0
  then show ?case by simp
next
  case (Suc d)
  show ?case
  proof (cases "v = JNull \<or> v = JUndefined")
    case True
    then show ?thesis using Suc.prems by auto
  next
    case nn: False
    show ?thesis
    proof (cases "stringify_throws_frames d v")
      case False
      then have "r = v" using Suc.prems nn by simp
      then show ?thesis using False stringify_throws_frames_covers[of v d] by auto
    next
      case True
      show ?thesis
      proof (cases v)
        case (JArr xs)
        then obtain ys where ys: "collect (map (makeSerializable_frames d) xs) = Inr ys"
          and r: "r = JArr ys"
          using Suc.prems True nn by (auto split: sum.splits)
        have "\<not> stringify_throws y" if "y \<in> set ys" for y
        proof -
          from collect_Inr_set[OF ys that]
          obtain x where "makeSerializable_frames d x = Inr y" by auto
          then show ?thesis by (rule Suc.IH)
        qed
        then show ?thesis using r by auto
      next
        case (JObj kvs)
        then have r: "r = JObj (map (\<lambda>kv.
                  (fst kv,
                   case makeSerializable_frames d (snd kv) of
                     Inr r \<Rightarrow> r
                   | Inl e \<Rightarrow> JStr (''[Non-serializable '' @ js_typeof (snd kv) @ '']''))) kvs)"
          using Suc.prems True nn by simp
        show ?thesis unfolding r
          using Suc.IH by (auto split: sum.splits)
      qed (use Suc.prems True nn in auto)
    qed
  qed
qed

lemma maximum_mono:
  "(\<And>x. x \<in> set xs \<Longrightarrow> f x \<le> g x) \<Longrightarrow> maximum (map f xs) \<le> maximum (map g xs)"
  by (induction xs) (auto simp: max_def intro: order_trans le_max_iff_disj)

lemma depth_makeSerializable: "depth (makeSerializable v) \<le> depth v"
proof (induction v rule: makeSerializable.induct)
  case (1 obj)
  show ?case
  proof (cases "stringify_throws obj")
    case False
    then show ?thesis by (simp add: makeSerializable_fixed)
  next
    case True
    then have nn: "\<not> (obj = JNull \<or> obj = JUndefined)" "\<not> \<not> stringify_throws obj" by auto
    show ?thesis
    proof (cases obj)
      case (JArr xs)
      have "maximum (map (\<lambda>x. depth (makeSerializable x)) xs) \<le> maximum (map depth xs)"
        using 1(1)[OF nn JArr] by (intro maximum_mono) auto
      then show ?thesis using True JArr by (simp add: makeSerializable_unfold comp_def)
    next
      case (JObj kvs)
      have "maximum (map (\<lambda>kv. depth (makeSerializable (snd kv))) kvs)
            \<le> maximum (map (\<lambda>kv. depth (snd kv)) kvs)"
        using 1(2)[OF nn JObj] by (intro maximum_mono) auto
      then show ?thesis using True JObj by (simp add: makeSerializable_unfold comp_def)
    qed (use True in \<open>simp_all add: makeSerializable_unfold\<close>)
  qed
qed

lemma stringify_throws_frames_nest: "d \<le> n \<Longrightarrow> stringify_throws_frames d (nest n v)"
proof (induction d arbitrary: n)
  case 0
  show ?case by simp
next
  case (Suc d)
  then obtain m where "n = Suc m" "d \<le> m" by (cases n) auto
  then show ?case using Suc.IH by simp
qed

lemma makeSerializable_frames_nest:
  "d \<le> n \<Longrightarrow> makeSerializable_frames d (nest n v)
     = Inl (RangeError ''Maximum call stack size exceeded'')"
proof (induction d arbitrary: n)
  case 0
  show ?case by simp
next
  case (Suc d)
  then obtain m where n: "n = Suc m" and dm: "d \<le> m" by (cases n) auto
  have "stringify_throws_frames d (nest n v)"
    using Suc.prems by (intro stringify_throws_frames_nest) simp
  then show ?case using n Suc.IH[OF dm] by simp
qed

lemma stringify_throws_stk_frames:
  "stringify_throws_stk h d seen (node_of v) = stringify_throws_frames d v"
proof (induction d arbitrary: v)
  case 0
  show ?case by simp
next
  case (Suc d)
  then show ?case by (cases v) auto
qed

lemma collect_map_sum:
  "collect (map (\<lambda>x. map_sum id f (g x)) xs) = map_sum id (map f) (collect (map g xs))"
proof (induction xs)
  case Nil
  show ?case by simp
next
  case (Cons x xs)
  then show ?case by (cases "g x"; cases "collect (map g xs)") auto
qed

lemma node_of_typeof: "node_typeof (deref h (node_of v)) = js_typeof v"
  by (cases v) auto

text \<open>
  On trees the two stack-bounded guards are the same function.
\<close>

lemma makeSerializable_stk_frames:
  "makeSerializable_stk h d (node_of v) = map_sum id node_of (makeSerializable_frames d v)"
proof (induction d arbitrary: v)
  case 0
  show ?case by simp
next
  case (Suc d)
  note st = stringify_throws_stk_frames[of h d "[]" v]
  show ?case
  proof (cases v)
    case (JArr xs)
    have "collect (map (makeSerializable_stk h d) (map node_of xs))
          = map_sum id (map node_of) (collect (map (makeSerializable_frames d) xs))"
      unfolding map_map comp_def Suc.IH by (rule collect_map_sum)
    then show ?thesis using JArr st
      by (cases "collect (map (makeSerializable_frames d) xs)") auto
  next
    case (JObj kvs)
    have "(case makeSerializable_stk h d (node_of x) of
             Inr r \<Rightarrow> r
           | Inl e \<Rightarrow> NStr (''[Non-serializable '' @ node_typeof (deref h (node_of x)) @ '']''))
          = node_of (case makeSerializable_frames d x of
             Inr r \<Rightarrow> r
           | Inl e \<Rightarrow> JStr (''[Non-serializable '' @ js_typeof x @ '']''))" for x
      unfolding Suc.IH node_of_typeof by (cases "makeSerializable_frames d x") auto
    then show ?thesis using JObj st
      by (auto simp: comp_def Suc.IH node_of_typeof split: sum.splits)
  qed (use st in auto)
qed

text \<open>
  An object that refers to itself does not make the guard raise: the \<open>catch\<close> around the key
  stops the RangeError where the frames end, so the result is as deep as the stack allows.
\<close>

lemma makeSerializable_cyclic_object:
  "makeSerializable_stk cyclic_object_heap 3 (NRef 0)
     = Inr (NObj [(''self'', NObj [(''self'', NObj [(''self'', NStr ''[Non-serializable object]'')])])])"
  "makeSerializable_stk cyclic_object_heap 2 (NRef 0)
     = Inr (NObj [(''self'', NObj [(''self'', NStr ''[Non-serializable object]'')])])"
  by (simp_all add: cyclic_object_heap_def numeral_eq_Suc)




text \<open>
  C3 at the array that contains itself: whatever the number of frames, the recursion through
  the array branch uses them up and the RangeError leaves \<open>makeSerializable\<close>, so
  \<open>makeSerializable(makeSerializable(a))\<close> has no value to compare.
\<close>

theorem makeSerializable_cyclic_array_raises:
  "makeSerializable_stk cyclic_array_heap d (NRef 0)
     = Inl (RangeError ''Maximum call stack size exceeded'')"
proof (induction d)
  case 0
  show ?case by simp
next
  case (Suc d)
  have "deref cyclic_array_heap (NRef 0) = NArr [NRef 0]"
    by (simp add: cyclic_array_heap_def)
  then show ?case using Suc cyclic_array_stringify[of d] by simp
qed

subsection \<open>HTTP probe client\<close>

text \<open>
  C6: a transport failure never leaves \<open>safeAxiosRequest\<close> as an exception. When \<open>axios\<close>
  rejects with an Axios error, the call returns a pseudo-response: its status is the status of
  the error response when there is one (and it is not 0), and 500 otherwise; likewise the status
  text, with \<open>Error\<close> as the default; its headers are the sanitized headers of the error
  response, or the empty object; its data is the sanitized payload of the error response, or
  the object that holds the error message.
\<close>

theorem safeAxiosRequest_transport_failure:
  assumes "ax config = AxiosError error_response message"
  shows "safeAxiosRequest ax config =
     Inr \<lparr> resp_status =
             (case error_response of
                None \<Rightarrow> 500
              | Some r \<Rightarrow> if resp_status r \<noteq> 0 then resp_status r else 500),
           resp_statusText =
             (case error_response of
                None \<Rightarrow> ''Error''
              | Some r \<Rightarrow> if resp_statusText r \<noteq> [] then resp_statusText r else ''Error''),
           resp_headers =
             makeSerializable
               (case error_response of
                  None \<Rightarrow> JObj []
                | Some r \<Rightarrow> if js_truthy (resp_headers r) then resp_headers r else JObj []),
           resp_data =
             makeSerializable
               (case error_response of
                  None \<Rightarrow> JObj [(''message'', JStr message)]
                | Some r \<Rightarrow> if js_truthy (resp_data r) then resp_data r
                            else JObj [(''message'', JStr message)]) \<rparr>"
  using assms by (simp add: safeAxiosRequest_def or_else_def split: option.split)

text \<open>
  A refused connection: no error response, so status 500, no headers, and the message as data.
\<close>

theorem safeAxiosRequest_transport_failure_witness:
  "refused (cors_config demo_endpoint) = AxiosError None ''connect ECONNREFUSED 127.0.0.1:443''
   \<and> safeAxiosRequest refused (cors_config demo_endpoint) =
       Inr \<lparr> resp_status = 500, resp_statusText = ''Error'', resp_headers = JObj [],
             resp_data = JObj [(''message'', JStr ''connect ECONNREFUSED 127.0.0.1:443'')] \<rparr>"
  using safeAxiosRequest_transport_failure[of refused "cors_config demo_endpoint" None
          "''connect ECONNREFUSED 127.0.0.1:443''"]
  by (simp add: refused_def makeSerializable.simps)

subsection \<open>The concrete world\<close>

lemma demo_world_axios: "axios demo_world task k config = Resolved demo_response"
  by (simp add: demo_world_def)

lemma demo_frames: "frames demo_world = 10000" "frames clean_world = 10000"
  "frames deep_world = 10000"
  by (simp_all add: demo_world_def clean_world_def deep_world_def)

lemma show_int_200: "show_int 200 = ''200''"
  by (simp add: show_int_def)

lemma demo_auth_result:
  "snd (authenticationTest_run demo_world e) =
     Inr \<lparr> name = ''Authentication Check'', status = failed,
           description = ''API endpoint accessible without authentication'',
           details = Some ''Received status code 200 without authentication headers'',
           severity = Some high \<rparr>"
proof -
  have "auth_classify demo_response =
      \<lparr> name = ''Authentication Check'', status = failed,
           description = ''API endpoint accessible without authentication'',
           details = Some ''Received status code 200 without authentication headers'',
           severity = Some high \<rparr>"
    by (simp add: auth_classify_def demo_response_def show_int_200)
  then show ?thesis
    by (simp add: authenticationTest_run_def Let_def safeAxiosRequest_def demo_world_axios)
qed

subsection \<open>Authentication probe\<close>

lemma obj_delete_three:
  "obj_delete ''api-key'' (obj_delete ''x-api-key'' (obj_delete ''Authorization'' h))
   = filter (\<lambda>kv. fst kv \<notin> {''Authorization'', ''x-api-key'', ''api-key''}) h"
  by (induction h) (auto simp: obj_delete_def)

lemma strip_auth_headers_store:
  assumes "a < length s"
  shows "strip_auth_headers s (Some a) =
           (s @ [filter (\<lambda>kv. fst kv \<notin> {''Authorization'', ''x-api-key'', ''api-key''}) (s ! a)],
            length s)"
  using assms obj_delete_three[of "s ! a"]
  by (simp add: strip_auth_headers_def store_spread_def store_delete_def nth_append)

lemma replicate_5: "replicate 5 x = [x, x, x, x, x]"
  by (simp add: numeral_eq_Suc)

lemma probe_requests:
  "fst (authenticationTest_run w e) =
     [\<lparr> cfg_method = method_name (http_method e), cfg_url = url e,
        cfg_headers = Some (filter (\<lambda>kv. fst kv \<notin> {''Authorization'', ''x-api-key'', ''api-key''})
                              (spread (headers e))),
        cfg_data = probe_data w e, cfg_timeout = 30000 \<rparr>]"
  "fst (sensitiveDataTest_run w e) = [plain_config w e]"
  "fst (corsTest_run w e) = [cors_config e]"
  "fst (securityHeadersTest_run w e) = [plain_config w e]"
  "fst (rateLimitTest_run w e) =
     [plain_config w e, plain_config w e, plain_config w e, plain_config w e, plain_config w e]"
  using obj_delete_three[of "spread (headers e)"]
  by (simp_all add: authenticationTest_run_def sensitiveDataTest_run_def corsTest_run_def
        securityHeadersTest_run_def rateLimitTest_run_def Let_def replicate_5)

text \<open>
  What the three deletes do: the request carries the caller's headers without the entries
  whose key is exactly \<open>Authorization\<close>, \<open>x-api-key\<close> or \<open>api-key\<close>, the others
  unchanged and in order. On the store the stripped headers are a new object, and no object
  that existed before, the caller's headers among them, is changed.
\<close>

lemma authenticationTest_strips_exact_keys:
  "fst (authenticationTest_run w e) =
     [\<lparr> cfg_method = method_name (http_method e), cfg_url = url e,
        cfg_headers = Some (filter (\<lambda>kv. fst kv \<notin> {''Authorization'', ''x-api-key'', ''api-key''})
                              (spread (headers e))),
        cfg_data = probe_data w e, cfg_timeout = 30000 \<rparr>]
   \<and> (a < length s \<longrightarrow>
        (case strip_auth_headers s (Some a) of
           (s', stripped) \<Rightarrow>
             stripped = length s \<and> take (length s) s' = s \<and> s' ! a = s ! a \<and>
             s' ! stripped
               = filter (\<lambda>kv. fst kv \<notin> {''Authorization'', ''x-api-key'', ''api-key''}) (s ! a)))"
  using obj_delete_three[of "spread (headers e)"] strip_auth_headers_store[of a s]
  by (simp add: authenticationTest_run_def Let_def nth_append)

lemma authenticationTest_strips_exact_keys_example:
  "fst (authenticationTest_run demo_world
          (demo_endpoint\<lparr>headers := Some [(''Authorization'', ''Bearer token''),
                                          (''X-Api-Key'', ''k1''), (''Accept'', ''*/*'')]\<rparr>)) =
     [\<lparr> cfg_method = ''GET'', cfg_url = ''https://api.example.com/v1/resource'',
        cfg_headers = Some [(''X-Api-Key'', ''k1''), (''Accept'', ''*/*'')],
        cfg_data = JUndefined, cfg_timeout = 30000 \<rparr>]
   \<and> (0::nat) < length [[(''Authorization'', ''Bearer token''), (''Accept'', ''*/*'')]]
   \<and> strip_auth_headers [[(''Authorization'', ''Bearer token''), (''Accept'', ''*/*'')]] (Some 0)
       = ([[(''Authorization'', ''Bearer token''), (''Accept'', ''*/*'')], [(''Accept'', ''*/*'')]], 1)"
  using authenticationTest_strips_exact_keys[of demo_world
          "demo_endpoint\<lparr>headers := Some [(''Authorization'', ''Bearer token''),
                                          (''X-Api-Key'', ''k1''), (''Accept'', ''*/*'')]\<rparr>"
          0 "[[(''Authorization'', ''Bearer token''), (''Accept'', ''*/*'')]]"]
  by (simp add: demo_endpoint_def demo_world_def spread_def probe_data_def
        strip_auth_headers_def store_spread_def store_delete_def obj_delete_def)

text \<open>
  C4 at a caller who writes the header name in lower case, as the form passes it on: the key
  \<open>authorization\<close> matches \<open>Authorization\<close> up to case and is an authentication header,
  but the probe leaves it in its request, and then reports that the endpoint answered 200
  without authentication headers. The comment in the code says that any auth headers are
  removed.
\<close>

theorem authenticationTest_keeps_lowercase_key:
  "headers demo_endpoint = Some [(''authorization'', ''Bearer token''), (''Accept'', ''*/*'')]
   \<and> lowercase ''Authorization'' = ''authorization''
   \<and> fst (authenticationTest_run demo_world demo_endpoint) =
       [\<lparr> cfg_method = ''GET'', cfg_url = ''https://api.example.com/v1/resource'',
          cfg_headers = Some [(''authorization'', ''Bearer token''), (''Accept'', ''*/*'')],
          cfg_data = JUndefined, cfg_timeout = 30000 \<rparr>]
   \<and> snd (authenticationTest_run demo_world demo_endpoint) =
       Inr \<lparr> name = ''Authentication Check'', status = failed,
             description = ''API endpoint accessible without authentication'',
             details = Some ''Received status code 200 without authentication headers'',
             severity = Some high \<rparr>"
proof -
  have "fst (authenticationTest_run demo_world demo_endpoint) =
       [\<lparr> cfg_method = ''GET'', cfg_url = ''https://api.example.com/v1/resource'',
          cfg_headers = Some [(''authorization'', ''Bearer token''), (''Accept'', ''*/*'')],
          cfg_data = JUndefined, cfg_timeout = 30000 \<rparr>]"
    by (simp add: probe_requests demo_endpoint_def spread_def probe_data_def)
  moreover have "lowercase ''Authorization'' = ''authorization''"
    by (simp add: lowercase_def ascii_lower_def)
  moreover have "headers demo_endpoint
      = Some [(''authorization'', ''Bearer token''), (''Accept'', ''*/*'')]"
    by (simp add: demo_endpoint_def)
  ultimately show ?thesis using demo_auth_result[of demo_endpoint] by simp
qed

subsection \<open>CORS probe\<close>

text \<open>
  C8, as stated, fails: an allowed origin that holds the host name of the injected origin but
  not the injected origin \<open>https://malicious-site.example.com\<close> itself is reported as
  failed, not as passed with the origin echoed.
\<close>

theorem cors_classify_host_only:
  "cors_classify (cors_response
       [(''access-control-allow-origin'', JStr ''http://malicious-site.example.com'')])
     = Inr \<lparr> name = ''CORS Configuration'', status = failed,
             description = ''CORS validation issue'',
             details = Some ''API accepts requests from untrusted origins'',
             severity = Some high \<rparr>
   \<and> \<not> contains ''http://malicious-site.example.com'' ''https://malicious-site.example.com''"
  by (simp add: cors_classify_def cors_response_def nullish_def Let_def)

text \<open>
  C8, amended: on a response whose \<open>Access-Control-Allow-Origin\<close> is absent or a string
  (\<open>origin\<close>, empty when absent), the first rule that applies decides: exactly \<open>*\<close> with
  \<open>Access-Control-Allow-Credentials\<close> exactly \<open>true\<close> gives failed/high; exactly \<open>*\<close>
  otherwise gives warning/medium; an origin that contains the host name
  \<open>malicious-site.example.com\<close> of the injected origin gives failed/high; an absent or
  empty origin gives passed with no details; every other origin gives passed with the origin
  echoed in the details.
\<close>

theorem cors_classify_decision:
  assumes "\<not> nullish (resp_headers r)"
    and "js_prop (resp_headers r) ''access-control-allow-origin'' = allowOrigin"
    and "js_prop (resp_headers r) ''access-control-allow-credentials'' = allowCredentials"
    and "allowOrigin = JUndefined \<and> origin = [] \<or> allowOrigin = JStr origin"
  shows "cors_classify r = Inr
     (if allowOrigin = JStr ''*'' \<and> allowCredentials = JStr ''true'' then
        \<lparr> name = ''CORS Configuration'', status = failed,
          description = ''Insecure CORS configuration detected'',
          details = Some ''API allows wildcard origin (*) with credentials, which is a security risk'',
          severity = Some high \<rparr>
      else if allowOrigin = JStr ''*'' then
        \<lparr> name = ''CORS Configuration'', status = warning,
          description = ''Permissive CORS configuration'',
          details = Some ''API allows requests from any origin (*)'',
          severity = Some medium \<rparr>
      else if contains origin ''malicious-site.example.com'' then
        \<lparr> name = ''CORS Configuration'', status = failed,
          description = ''CORS validation issue'',
          details = Some ''API accepts requests from untrusted origins'',
          severity = Some high \<rparr>
      else if origin = [] then
        \<lparr> name = ''CORS Configuration'', status = passed,
          description = ''No CORS headers found or CORS is properly restricted'',
          details = None, severity = None \<rparr>
      else
        \<lparr> name = ''CORS Configuration'', status = passed,
          description = ''CORS appears to be properly configured'',
          details = Some (''Origin: '' @ origin), severity = None \<rparr>)"
proof -
  have empty: "\<not> contains [] ''malicious-site.example.com''" by simp
  from assms(4) show ?thesis
  proof
    assume "allowOrigin = JUndefined \<and> origin = []"
    then show ?thesis using assms(1-3) empty
      by (simp add: cors_classify_def Let_def)
  next
    assume "allowOrigin = JStr origin"
    then show ?thesis using assms(1-3)
      by (simp add: cors_classify_def Let_def)
  qed
qed

text \<open>
  One response for each of the five rules.
\<close>

theorem cors_classify_decision_witness:
  "cors_classify (cors_response [(''access-control-allow-origin'', JStr ''*''),
                                 (''access-control-allow-credentials'', JStr ''true'')])
     = Inr \<lparr> name = ''CORS Configuration'', status = failed,
             description = ''Insecure CORS configuration detected'',
             details = Some ''API allows wildcard origin (*) with credentials, which is a security risk'',
             severity = Some high \<rparr>
   \<and> cors_classify (cors_response [(''access-control-allow-origin'', JStr ''*'')])
     = Inr \<lparr> name = ''CORS Configuration'', status = warning,
             description = ''Permissive CORS configuration'',
             details = Some ''API allows requests from any origin (*)'',
             severity = Some medium \<rparr>
   \<and> cors_classify (cors_response
        [(''access-control-allow-origin'', JStr ''https://malicious-site.example.com'')])
     = Inr \<lparr> name = ''CORS Configuration'', status = failed,
             description = ''CORS validation issue'',
             details = Some ''API accepts requests from untrusted origins'',
             severity = Some high \<rparr>
   \<and> cors_classify (cors_response [(''content-type'', JStr ''text/plain'')])
     = Inr \<lparr> name = ''CORS Configuration'', status = passed,
             description = ''No CORS headers found or CORS is properly restricted'',
             details = None, severity = None \<rparr>
   \<and> cors_classify (cors_response
        [(''access-control-allow-origin'', JStr ''https://app.example.com'')])
     = Inr \<lparr> name = ''CORS Configuration'', status = passed,
             description = ''CORS appears to be properly configured'',
             details = Some ''Origin: https://app.example.com'', severity = None \<rparr>"
  using
    cors_classify_decision[of
      "cors_response [(''access-control-allow-origin'', JStr ''*''),
                      (''access-control-allow-credentials'', JStr ''true'')]"
      "JStr ''*''" "JStr ''true''" "''*''"]
    cors_classify_decision[of
      "cors_response [(''access-control-allow-origin'', JStr ''*'')]"
      "JStr ''*''" JUndefined "''*''"]
    cors_classify_decision[of
      "cors_response [(''access-control-allow-origin'', JStr ''https://malicious-site.example.com'')]"
      "JStr ''https://malicious-site.example.com''" JUndefined
      "''https://malicious-site.example.com''"]
    cors_classify_decision[of
      "cors_response [(''content-type'', JStr ''text/plain'')]" JUndefined JUndefined "[]"]
    cors_classify_decision[of
      "cors_response [(''access-control-allow-origin'', JStr ''https://app.example.com'')]"
      "JStr ''https://app.example.com''" JUndefined "''https://app.example.com''"]
  by (simp add: cors_response_def nullish_def)

subsection \<open>Sensitive-data probe\<close>

lemma stringify_text_makeSerializable:
  assumes "v \<noteq> JUndefined" and "\<forall>src. v \<noteq> JFunction src"
  shows "\<exists>s. stringify_text (makeSerializable v) = Some s"
proof (cases "stringify_throws v")
  case False
  then show ?thesis using assms by (cases v) (simp_all add: makeSerializable_fixed)
next
  case True
  then show ?thesis by (cases v) (simp_all add: makeSerializable_unfold)
qed

lemma sensitive_findings_filter:
  "sensitive_findings w s =
     map (\<lambda>p. finding_line (snd p)) (filter (\<lambda>p. pattern_found w (fst p) s) sensitivePatterns)"
proof -
  have "concat (map (\<lambda>(pattern, type). if pattern_found w pattern s then [finding_line type] else []) ps)
      = map (\<lambda>p. finding_line (snd p)) (filter (\<lambda>p. pattern_found w (fst p) s) ps)" for ps
    by (induction ps) auto
  then show ?thesis by (simp add: sensitive_findings_def)
qed

lemma finding_line_inj: "finding_line a = finding_line b \<Longrightarrow> a = b"
  by (simp add: finding_line_def)

lemma sensitivePatterns_types:
  "map snd sensitivePatterns
     = [''email'', ''possible credit card'', ''password'', ''secret'', ''token'', ''key'', ''SSN'']"
  by (simp add: sensitivePatterns_def)

lemma sensitive_findings_distinct: "distinct (sensitive_findings w s)"
proof -
  have "distinct (map snd sensitivePatterns)" by (simp add: sensitivePatterns_types)
  then have "distinct (map finding_line (map snd sensitivePatterns))"
    by (simp add: distinct_map inj_on_def finding_line_inj)
  then have "distinct (map (\<lambda>p. finding_line (snd p)) sensitivePatterns)"
    by (simp add: comp_def)
  then show ?thesis
    unfolding sensitive_findings_filter by (rule distinct_map_filter)
qed

lemma sensitive_lines:
  "map (\<lambda>p. finding_line (snd p)) sensitivePatterns =
     [''Found possible email data in response'',
      ''Found possible possible credit card data in response'',
      ''Found possible password data in response'',
      ''Found possible secret data in response'',
      ''Found possible token data in response'',
      ''Found possible key data in response'',
      ''Found possible SSN data in response'']"
  by (simp add: sensitivePatterns_def finding_line_def)

lemma sensitive_classify_enough:
  assumes "Suc (depth (resp_data r)) < frames w"
    and "stringify_text (makeSerializable (resp_data r)) = Some s"
  shows "sensitive_classify w r = Inr
          (if sensitive_findings w s \<noteq> [] then
             \<lparr> name = ''Sensitive Data Exposure'', status = failed,
               description = ''API may be exposing sensitive data'',
               details = Some (join [CHR 0x0A] (sensitive_findings w s)),
               severity = Some high \<rparr>
           else
             \<lparr> name = ''Sensitive Data Exposure'', status = passed,
               description = ''No obvious sensitive data found in response'',
               details = None, severity = None \<rparr>)"
proof -
  have guard: "makeSerializable_frames (frames w) (resp_data r)
               = Inr (makeSerializable (resp_data r))"
    using assms(1) by (rule makeSerializable_frames_enough)
  have "depth (makeSerializable (resp_data r)) < frames w"
    using depth_makeSerializable[of "resp_data r"] assms(1) by simp
  then have "\<not> stringify_throws_frames (frames w) (makeSerializable (resp_data r))"
    by (simp add: stringify_throws_frames_enough makeSerializable_no_throw)
  then have "JSON_stringify_frames (frames w) (makeSerializable (resp_data r)) = Inr (Some s)"
    using assms(2) by (simp add: JSON_stringify_frames_def makeSerializable_no_throw)
  with guard show ?thesis
    by (simp add: sensitive_classify_def Let_def)
qed

lemma sensitiveDataTest_guard_raises:
  assumes "safeAxiosRequest (axios w ''sensitive-data'' 0) (plain_config w e) = Inr r"
    and "makeSerializable_frames (frames w) (resp_data r) = Inl error"
  shows "snd (sensitiveDataTest_run w e) = Inr
          \<lparr> name = ''Sensitive Data Exposure'', status = warning,
            description = ''Error occurred during sensitive data test'',
            details = Some (error_text error), severity = Some medium \<rparr>"
  using assms by (simp add: sensitiveDataTest_run_def sensitive_classify_def Let_def)

lemma deep_guard_raises:
  "makeSerializable_frames (frames deep_world) (resp_data deep_response)
     = Inl (RangeError ''Maximum call stack size exceeded'')"
proof -
  have "frames deep_world = 10000" by (simp add: deep_world_def demo_world_def)
  moreover have "resp_data deep_response = nest 10000 (JObj [(''password'', JStr ''abc123'')])"
    by (simp add: deep_response_def)
  ultimately show ?thesis
    by (simp add: makeSerializable_frames_nest)
qed

lemma deep_request:
  "safeAxiosRequest (axios deep_world ''sensitive-data'' 0) (plain_config deep_world demo_endpoint)
     = Inr deep_response"
  by (simp add: safeAxiosRequest_def deep_world_def)

lemma demo_response_text:
  \<open>JSON_stringify (makeSerializable (resp_data demo_response)) = Inr (Some ''{"password":"abc123"}'')\<close>
  by (simp add: demo_response_def makeSerializable.simps JSON_stringify_def json_quote_def
        json_escape_def)

lemma clean_response_text:
  \<open>JSON_stringify (makeSerializable (resp_data clean_response)) = Inr (Some ''{"id":1}'')\<close>
  by (simp add: clean_response_def makeSerializable.simps JSON_stringify_def json_quote_def
        json_escape_def show_int_def)

lemma demo_findings:
  \<open>sensitive_findings demo_world ''{"password":"abc123"}''
     = [''Found possible password data in response'']\<close>
  by code_simp

lemma clean_findings: \<open>sensitive_findings clean_world ''{"id":1}'' = []\<close>
  by code_simp

text \<open>
  C9, as stated, fails: a body of valid JSON that holds a password, nested deeper than the call
  stack has frames, makes the guard raise; the probe catches the RangeError and returns a
  warning, neither failed nor passed.
\<close>

theorem sensitiveDataTest_deep_body:
  "resp_data deep_response = nest 10000 (JObj [(''password'', JStr ''abc123'')])
   \<and> frames deep_world = 10000
   \<and> snd (sensitiveDataTest_run deep_world demo_endpoint) = Inr
        \<lparr> name = ''Sensitive Data Exposure'', status = warning,
          description = ''Error occurred during sensitive data test'',
          details = Some ''Maximum call stack size exceeded'', severity = Some medium \<rparr>"
  using sensitiveDataTest_guard_raises[OF deep_request deep_guard_raises]
  by (simp add: deep_response_def deep_world_def demo_world_def)

text \<open>
  C9, amended: for every response body (any value but \<open>undefined\<close> and a function, which no
  response body is) that is nested less deep than the call stack has frames, the body is
  written as text, and the lines of the probe are the lines
  \<open>Found possible <type> data in response\<close> of the patterns of the table that are found in
  the text, in the order of the table (email, possible credit card, password, secret, token,
  key, SSN) and each at most once, however many matches a pattern has. With at least one line
  the finding is failed with severity high and the lines joined by newlines as details; with
  none it is passed. When the guard raises on the body, the finding is a warning with severity
  medium and the text of the error as details.
\<close>

theorem sensitiveDataTest_findings:
  assumes "safeAxiosRequest (axios w ''sensitive-data'' 0) (plain_config w e) = Inr r"
  shows "(Suc (depth (resp_data r)) < frames w \<and> resp_data r \<noteq> JUndefined
          \<and> (\<forall>src. resp_data r \<noteq> JFunction src) \<longrightarrow>
          (\<exists>responseStr.
             JSON_stringify (makeSerializable (resp_data r)) = Inr (Some responseStr)
             \<and> sensitive_findings w responseStr =
                 map (\<lambda>p. finding_line (snd p))
                   (filter (\<lambda>p. pattern_found w (fst p) responseStr) sensitivePatterns)
             \<and> distinct (sensitive_findings w responseStr)
             \<and> snd (sensitiveDataTest_run w e) = Inr
                 (if sensitive_findings w responseStr \<noteq> [] then
                    \<lparr> name = ''Sensitive Data Exposure'', status = failed,
                      description = ''API may be exposing sensitive data'',
                      details = Some (join [CHR 0x0A] (sensitive_findings w responseStr)),
                      severity = Some high \<rparr>
                  else
                    \<lparr> name = ''Sensitive Data Exposure'', status = passed,
                      description = ''No obvious sensitive data found in response'',
                      details = None, severity = None \<rparr>)))
    \<and> (\<forall>error. makeSerializable_frames (frames w) (resp_data r) = Inl error \<longrightarrow>
          snd (sensitiveDataTest_run w e) = Inr
            \<lparr> name = ''Sensitive Data Exposure'', status = warning,
              description = ''Error occurred during sensitive data test'',
              details = Some (error_text error), severity = Some medium \<rparr>)
    \<and> map (\<lambda>p. finding_line (snd p)) sensitivePatterns =
        [''Found possible email data in response'',
         ''Found possible possible credit card data in response'',
         ''Found possible password data in response'',
         ''Found possible secret data in response'',
         ''Found possible token data in response'',
         ''Found possible key data in response'',
         ''Found possible SSN data in response'']"
proof (intro conjI impI allI)
  assume h: "Suc (depth (resp_data r)) < frames w \<and> resp_data r \<noteq> JUndefined
          \<and> (\<forall>src. resp_data r \<noteq> JFunction src)"
  then obtain s where s: "stringify_text (makeSerializable (resp_data r)) = Some s"
    using stringify_text_makeSerializable[of "resp_data r"] by blast
  then have js: "JSON_stringify (makeSerializable (resp_data r)) = Inr (Some s)"
    by (simp add: JSON_stringify_def makeSerializable_no_throw)
  have "snd (sensitiveDataTest_run w e) = Inr
          (if sensitive_findings w s \<noteq> [] then
             \<lparr> name = ''Sensitive Data Exposure'', status = failed,
               description = ''API may be exposing sensitive data'',
               details = Some (join [CHR 0x0A] (sensitive_findings w s)),
               severity = Some high \<rparr>
           else
             \<lparr> name = ''Sensitive Data Exposure'', status = passed,
               description = ''No obvious sensitive data found in response'',
               details = None, severity = None \<rparr>)"
    using assms sensitive_classify_enough[of r w s] h s
    by (simp add: sensitiveDataTest_run_def Let_def)
  with js sensitive_findings_filter[of w s] sensitive_findings_distinct[of w s]
  show "\<exists>responseStr.
             JSON_stringify (makeSerializable (resp_data r)) = Inr (Some responseStr)
             \<and> sensitive_findings w responseStr =
                 map (\<lambda>p. finding_line (snd p))
                   (filter (\<lambda>p. pattern_found w (fst p) responseStr) sensitivePatterns)
             \<and> distinct (sensitive_findings w responseStr)
             \<and> snd (sensitiveDataTest_run w e) = Inr
                 (if sensitive_findings w responseStr \<noteq> [] then
                    \<lparr> name = ''Sensitive Data Exposure'', status = failed,
                      description = ''API may be exposing sensitive data'',
                      details = Some (join [CHR 0x0A] (sensitive_findings w responseStr)),
                      severity = Some high \<rparr>
                  else
                    \<lparr> name = ''Sensitive Data Exposure'', status = passed,
                      description = ''No obvious sensitive data found in response'',
                      details = None, severity = None \<rparr>)"
    by blast
next
  fix error
  assume "makeSerializable_frames (frames w) (resp_data r) = Inl error"
  with assms show "snd (sensitiveDataTest_run w e) = Inr
            \<lparr> name = ''Sensitive Data Exposure'', status = warning,
              description = ''Error occurred during sensitive data test'',
              details = Some (error_text error), severity = Some medium \<rparr>"
    by (rule sensitiveDataTest_guard_raises)
next
  show "map (\<lambda>p. finding_line (snd p)) sensitivePatterns =
        [''Found possible email data in response'',
         ''Found possible possible credit card data in response'',
         ''Found possible password data in response'',
         ''Found possible secret data in response'',
         ''Found possible token data in response'',
         ''Found possible key data in response'',
         ''Found possible SSN data in response'']"
    by (rule sensitive_lines)
qed

text \<open>
  The body \<open>{"password":"abc123"}\<close> is reported with the password line alone; the body
  \<open>{"id":1}\<close> passes; the password under ten thousand arrays gives the warning.
\<close>

theorem sensitiveDataTest_findings_witness:
  "safeAxiosRequest (axios demo_world ''sensitive-data'' 0) (plain_config demo_world demo_endpoint)
     = Inr demo_response
   \<and> resp_data demo_response = JObj [(''password'', JStr ''abc123'')]
   \<and> Suc (depth (resp_data demo_response)) < frames demo_world
   \<and> snd (sensitiveDataTest_run demo_world demo_endpoint) = Inr
        \<lparr> name = ''Sensitive Data Exposure'', status = failed,
          description = ''API may be exposing sensitive data'',
          details = Some ''Found possible password data in response'',
          severity = Some high \<rparr>
   \<and> safeAxiosRequest (axios clean_world ''sensitive-data'' 0) (plain_config clean_world demo_endpoint)
     = Inr clean_response
   \<and> resp_data clean_response = JObj [(''id'', JNum 1)]
   \<and> Suc (depth (resp_data clean_response)) < frames clean_world
   \<and> snd (sensitiveDataTest_run clean_world demo_endpoint) = Inr
        \<lparr> name = ''Sensitive Data Exposure'', status = passed,
          description = ''No obvious sensitive data found in response'',
          details = None, severity = None \<rparr>
   \<and> safeAxiosRequest (axios deep_world ''sensitive-data'' 0) (plain_config deep_world demo_endpoint)
     = Inr deep_response
   \<and> makeSerializable_frames (frames deep_world) (resp_data deep_response)
     = Inl (RangeError ''Maximum call stack size exceeded'')
   \<and> snd (sensitiveDataTest_run deep_world demo_endpoint) = Inr
        \<lparr> name = ''Sensitive Data Exposure'', status = warning,
          description = ''Error occurred during sensitive data test'',
          details = Some ''Maximum call stack size exceeded'', severity = Some medium \<rparr>"
proof -
  have req: "safeAxiosRequest (axios demo_world ''sensitive-data'' 0)
               (plain_config demo_world demo_endpoint) = Inr demo_response"
    by (simp add: safeAxiosRequest_def demo_world_axios)
  have data: "resp_data demo_response = JObj [(''password'', JStr ''abc123'')]"
    by (simp add: demo_response_def)
  have deep: "Suc (depth (resp_data demo_response)) < frames demo_world"
    by (simp add: data demo_frames)
  have req': "safeAxiosRequest (axios clean_world ''sensitive-data'' 0)
               (plain_config clean_world demo_endpoint) = Inr clean_response"
    by (simp add: safeAxiosRequest_def clean_world_def)
  have data': "resp_data clean_response = JObj [(''id'', JNum 1)]"
    by (simp add: clean_response_def)
  have deep': "Suc (depth (resp_data clean_response)) < frames clean_world"
    by (simp add: data' demo_frames)
  from sensitiveDataTest_findings[OF req] data deep demo_response_text demo_findings
  have one: "snd (sensitiveDataTest_run demo_world demo_endpoint) = Inr
        \<lparr> name = ''Sensitive Data Exposure'', status = failed,
          description = ''API may be exposing sensitive data'',
          details = Some ''Found possible password data in response'',
          severity = Some high \<rparr>"
    by auto
  from sensitiveDataTest_findings[OF req'] data' deep' clean_response_text clean_findings
  have two: "snd (sensitiveDataTest_run clean_world demo_endpoint) = Inr
        \<lparr> name = ''Sensitive Data Exposure'', status = passed,
          description = ''No obvious sensitive data found in response'',
          details = None, severity = None \<rparr>"
    by auto
  from sensitiveDataTest_findings[OF deep_request] deep_guard_raises
  have three: "snd (sensitiveDataTest_run deep_world demo_endpoint) = Inr
        \<lparr> name = ''Sensitive Data Exposure'', status = warning,
          description = ''Error occurred during sensitive data test'',
          details = Some ''Maximum call stack size exceeded'', severity = Some medium \<rparr>"
    by auto
  show ?thesis
    using req data deep one req' data' deep' two deep_request deep_guard_raises three by simp
qed

subsection \<open>Scan orchestrator\<close>

lemma TestResult_js_no_throw: "\<not> stringify_throws (TestResult_js r)"
  by (auto simp: TestResult_js_def split: option.splits)

lemma ApiEndpoint_js_no_throw: "\<not> stringify_throws (ApiEndpoint_js e)"
  by (auto simp: ApiEndpoint_js_def split: option.splits)

lemma initial_request_no_throw: "\<not> stringify_throws (snd (snd (initial_request w e)))"
  by (auto simp: initial_request_def Let_def makeSerializable_frames_no_throw
      split: option.splits sum.splits axios_outcome.splits)

lemma ScanResult_js_no_throw:
  "\<not> stringify_throws (rawResponse r) \<Longrightarrow> \<not> stringify_throws (ScanResult_js r)"
  by (auto simp: ScanResult_js_def TestResult_js_no_throw ApiEndpoint_js_no_throw
      split: option.splits)

text \<open>
  The final guard returns the report as it is: \<open>runApiTest\<close> never throws, and its value is
  the assembled report.
\<close>

lemma runApiTest_returns:
  "snd (runApiTest tests w e S) = Inr (ScanResult_js (scan_result tests w e S))"
proof -
  have "\<not> stringify_throws (ScanResult_js (scan_result tests w e S))"
    by (rule ScanResult_js_no_throw) (simp add: scan_result_def initial_request_no_throw)
  then show ?thesis
    by (simp add: runApiTest_def makeSerializable_fixed)
qed

lemma auth_classify_name: "name (auth_classify r) = ''Authentication Check''"
  by (simp add: auth_classify_def)

lemma authenticationTest_name:
  "snd (authenticationTest_run w e) = Inr r \<Longrightarrow> name r = ''Authentication Check''"
  by (auto simp: authenticationTest_run_def Let_def auth_classify_name split: sum.splits)

lemma sensitive_classify_name:
  "sensitive_classify w resp = Inr r \<Longrightarrow> name r = ''Sensitive Data Exposure''"
  by (auto simp: sensitive_classify_def Let_def split: sum.splits option.splits if_splits)

lemma sensitiveDataTest_name:
  "snd (sensitiveDataTest_run w e) = Inr r \<Longrightarrow> name r = ''Sensitive Data Exposure''"
  by (auto simp: sensitiveDataTest_run_def Let_def sensitive_classify_name split: sum.splits)

lemma cors_classify_name:
  "cors_classify resp = Inr r \<Longrightarrow> name r = ''CORS Configuration''"
  by (auto simp: cors_classify_def Let_def split: sum.splits if_splits)

lemma corsTest_name:
  "snd (corsTest_run w e) = Inr r \<Longrightarrow> name r = ''CORS Configuration''"
  by (auto simp: corsTest_run_def Let_def cors_classify_name split: sum.splits)

lemma securityHeaders_classify_name:
  "securityHeaders_classify resp = Inr r \<Longrightarrow> name r = ''Security Headers''"
  by (auto simp: securityHeaders_classify_def securityHeaders_result_def split: if_splits)

lemma securityHeadersTest_name:
  "snd (securityHeadersTest_run w e) = Inr r \<Longrightarrow> name r = ''Security Headers''"
  by (auto simp: securityHeadersTest_run_def Let_def securityHeaders_classify_name split: sum.splits)

lemma rateLimit_classify_name: "name (rateLimit_classify t rs) = ''Rate Limiting''"
  by (simp add: rateLimit_classify_def Let_def)

lemma rateLimitTest_name:
  "snd (rateLimitTest_run w e) = Inr r \<Longrightarrow> name r = ''Rate Limiting''"
  by (auto simp: rateLimitTest_run_def Let_def rateLimit_classify_name split: sum.splits)

lemma run_test_name: "test \<in> set allTests \<Longrightarrow> name (run_test w e test) = test_name test"
  by (auto simp: allTests_def run_test_def authenticationTest_def sensitiveDataTest_def
        corsTest_def securityHeadersTest_def rateLimitTest_def
        authenticationTest_name sensitiveDataTest_name corsTest_name securityHeadersTest_name
        rateLimitTest_name split: sum.splits)

lemma allTests_ids:
  "map test_id allTests
     = [''auth-check'', ''sensitive-data'', ''cors-check'', ''security-headers'', ''rate-limit'']"
  by (simp add: allTests_def authenticationTest_def sensitiveDataTest_def corsTest_def
        securityHeadersTest_def rateLimitTest_def)

lemma allTests_distinct_ids: "distinct (map test_id allTests)"
  by (simp add: allTests_ids)

lemma length_filter_ids:
  assumes "distinct (map f xs)"
  shows "length (filter (\<lambda>x. f x \<in> A) xs) = card (A \<inter> set (map f xs))"
proof -
  have "distinct (map f (filter (\<lambda>x. f x \<in> A) xs))"
    using assms by (simp add: distinct_map_filter)
  then have "length (map f (filter (\<lambda>x. f x \<in> A) xs)) = card (set (map f (filter (\<lambda>x. f x \<in> A) xs)))"
    by (simp only: distinct_card)
  moreover have "set (map f (filter (\<lambda>x. f x \<in> A) xs)) = A \<inter> set (map f xs)"
    by auto
  ultimately show ?thesis by simp
qed

lemma allTests_requests:
  "concat (map (\<lambda>test. fst (run test w e)) allTests) =
     [\<lparr> cfg_method = method_name (http_method e), cfg_url = url e,
        cfg_headers = Some (filter (\<lambda>kv. fst kv \<notin> {''Authorization'', ''x-api-key'', ''api-key''})
                              (spread (headers e))),
        cfg_data = probe_data w e, cfg_timeout = 30000 \<rparr>,
      plain_config w e, cors_config e, plain_config w e,
      plain_config w e, plain_config w e, plain_config w e, plain_config w e, plain_config w e]"
  by (simp add: allTests_def authenticationTest_def sensitiveDataTest_def corsTest_def
        securityHeadersTest_def rateLimitTest_def probe_requests)

lemma bad_body_auth:
  "run_test demo_world bad_body_endpoint authenticationTest =
     \<lparr> name = ''Authentication Check'', status = failed,
       description = ''API endpoint accessible without authentication'',
       details = Some ''Received status code 200 without authentication headers'',
       severity = Some high \<rparr>"
  by (simp add: run_test_def authenticationTest_def demo_auth_result)

text \<open>
  C1: for every endpoint and every selection whose ids are among the five registered ones,
  \<open>runApiTest\<close> returns a report with five findings when the selection is empty and as many
  findings as the selection has ids otherwise; the findings follow the order of the registry
  (auth-check, sensitive-data, cors-check, security-headers, rate-limit), since the results are
  the list of the selected probes mapped in place, and the name of each finding is the name
  of its probe.
\<close>

theorem runApiTest_findings:
  assumes "set S \<subseteq> set (map test_id allTests)"
  shows "snd (runApiTest allTests w e S) = Inr (ScanResult_js (scan_result allTests w e S))
    \<and> length (results (scan_result allTests w e S)) = (if S = [] then 5 else card (set S))
    \<and> map name (results (scan_result allTests w e S))
        = map test_name (filter (\<lambda>test. S = [] \<or> test_id test \<in> set S) allTests)
    \<and> map test_name allTests
        = [''Authentication Check'', ''Sensitive Data Exposure'', ''CORS Configuration'',
           ''Security Headers'', ''Rate Limiting'']"
proof (cases "S = []")
  case True
  have "length allTests = 5" by (simp add: allTests_def)
  moreover have "map name (map (run_test w e) allTests) = map test_name allTests"
    by (simp add: run_test_name)
  moreover have "map test_name allTests
        = [''Authentication Check'', ''Sensitive Data Exposure'', ''CORS Configuration'',
           ''Security Headers'', ''Rate Limiting'']"
    by (simp add: allTests_def authenticationTest_def sensitiveDataTest_def corsTest_def
        securityHeadersTest_def rateLimitTest_def)
  ultimately show ?thesis using True
    by (simp add: runApiTest_returns scan_result_def testsToRun_def)
next
  case False
  have "set S \<inter> set (map test_id allTests) = set S" using assms by auto
  then have "length (filter (\<lambda>test. test_id test \<in> set S) allTests) = card (set S)"
    using length_filter_ids[OF allTests_distinct_ids, of "set S"] by simp
  moreover have "map name (map (run_test w e) (filter (\<lambda>test. test_id test \<in> set S) allTests))
      = map test_name (filter (\<lambda>test. test_id test \<in> set S) allTests)"
    by (simp add: run_test_name)
  moreover have "map test_name allTests
        = [''Authentication Check'', ''Sensitive Data Exposure'', ''CORS Configuration'',
           ''Security Headers'', ''Rate Limiting'']"
    by (simp add: allTests_def authenticationTest_def sensitiveDataTest_def corsTest_def
        securityHeadersTest_def rateLimitTest_def)
  ultimately show ?thesis using False
    by (simp add: runApiTest_returns scan_result_def testsToRun_def)
qed

lemma filter_demo_selection:
  "filter (\<lambda>test. test_id test \<in> set [''rate-limit'', ''auth-check'']) allTests
     = [authenticationTest, rateLimitTest]"
  by (simp add: allTests_def authenticationTest_def sensitiveDataTest_def corsTest_def
        securityHeadersTest_def rateLimitTest_def)

text \<open>
  The selection rate-limit, auth-check gives two findings, the authentication one first.
\<close>

theorem runApiTest_findings_witness:
  "set [''rate-limit'', ''auth-check''] \<subseteq> set (map test_id allTests)
   \<and> length (results (scan_result allTests demo_world demo_endpoint [''rate-limit'', ''auth-check''])) = 2
   \<and> map name (results (scan_result allTests demo_world demo_endpoint [''rate-limit'', ''auth-check'']))
       = [''Authentication Check'', ''Rate Limiting'']"
proof -
  have sub: "set [''rate-limit'', ''auth-check''] \<subseteq> set (map test_id allTests)"
    by (simp add: allTests_ids)
  have card: "card (set [''rate-limit'', ''auth-check'']) = 2"
    by simp
  show ?thesis
    using runApiTest_findings[OF sub, of demo_world demo_endpoint] sub card filter_demo_selection
    by (simp add: authenticationTest_def rateLimitTest_def)
qed

text \<open>
  C5, as stated, fails: with a body that \<open>JSON.parse\<close> rejects the scan raises nothing; it
  returns a report that holds the parse error as raw response, and the selected probe has made
  its request, with \<open>null\<close> as data.
\<close>

theorem runApiTest_invalid_body_no_error:
  "body bad_body_endpoint = Some ''{broken''
   \<and> JSON_parse demo_world ''{broken'' = Inl (SyntaxError ''Unexpected token b in JSON at position 1'')
   \<and> snd (runApiTest allTests demo_world bad_body_endpoint [''auth-check'']) =
       Inr (ScanResult_js
         \<lparr> endpoint = bad_body_endpoint, timestamp = ''2024-05-01T12:00:00.000Z'',
           results = [\<lparr> name = ''Authentication Check'', status = failed,
                        description = ''API endpoint accessible without authentication'',
                        details = Some ''Received status code 200 without authentication headers'',
                        severity = Some high \<rparr>],
           rawResponse = JObj [(''error'', JStr ''Unexpected token b in JSON at position 1'')],
           responseTime = 120, statusCode = None \<rparr>)
   \<and> fst (runApiTest allTests demo_world bad_body_endpoint [''auth-check'']) =
       [\<lparr> cfg_method = ''POST'', cfg_url = ''https://api.example.com/v1/resource'',
          cfg_headers = Some [], cfg_data = JNull, cfg_timeout = 30000 \<rparr>]"
proof -
  have sel: "testsToRun allTests [''auth-check''] = [authenticationTest]"
    by (simp add: testsToRun_def allTests_def authenticationTest_def sensitiveDataTest_def
          corsTest_def securityHeadersTest_def rateLimitTest_def)
  have init: "initial_request demo_world bad_body_endpoint
      = ([], None, JObj [(''error'', JStr ''Unexpected token b in JSON at position 1'')])"
    by (simp add: initial_request_def bad_body_endpoint_def demo_world_def)
  have "probe_data demo_world bad_body_endpoint = JNull"
    by (simp add: probe_data_def safeJsonParse_def bad_body_endpoint_def demo_world_def)
  then have reqs: "fst (run authenticationTest demo_world bad_body_endpoint) =
       [\<lparr> cfg_method = ''POST'', cfg_url = ''https://api.example.com/v1/resource'',
          cfg_headers = Some [], cfg_data = JNull, cfg_timeout = 30000 \<rparr>]"
    by (simp add: authenticationTest_def probe_requests bad_body_endpoint_def spread_def)
  have env: "now_iso demo_world = ''2024-05-01T12:00:00.000Z''" "elapsed demo_world ''scan'' = 120"
    "JSON_parse demo_world ''{broken'' = Inl (SyntaxError ''Unexpected token b in JSON at position 1'')"
    "body bad_body_endpoint = Some ''{broken''"
    by (simp_all add: demo_world_def bad_body_endpoint_def)
  have report: "snd (runApiTest allTests demo_world bad_body_endpoint [''auth-check'']) =
       Inr (ScanResult_js
         \<lparr> endpoint = bad_body_endpoint, timestamp = ''2024-05-01T12:00:00.000Z'',
           results = [\<lparr> name = ''Authentication Check'', status = failed,
                        description = ''API endpoint accessible without authentication'',
                        details = Some ''Received status code 200 without authentication headers'',
                        severity = Some high \<rparr>],
           rawResponse = JObj [(''error'', JStr ''Unexpected token b in JSON at position 1'')],
           responseTime = 120, statusCode = None \<rparr>)"
    using sel init bad_body_auth env by (simp add: runApiTest_returns scan_result_def)
  have log: "fst (runApiTest allTests demo_world bad_body_endpoint [''auth-check'']) =
       [\<lparr> cfg_method = ''POST'', cfg_url = ''https://api.example.com/v1/resource'',
          cfg_headers = Some [], cfg_data = JNull, cfg_timeout = 30000 \<rparr>]"
    using sel init reqs by (simp add: runApiTest_def)
  show ?thesis using report log env by simp
qed

text \<open>
  C5, amended: no scan raises an error, whatever the body and the URL of the endpoint. When the
  body is present, not empty and not valid JSON, the initial request is not made, the report
  holds the message of the parse error as raw response and no status code, and the probes
  still make their requests: the full scan makes nine, each with \<open>null\<close> as data except the
  CORS preflight, which has none.
\<close>

theorem runApiTest_absorbs_invalid_body:
  "snd (runApiTest tests w e S) = Inr (ScanResult_js (scan_result tests w e S))
   \<and> (body e = Some b \<and> b \<noteq> [] \<and> JSON_parse w b = Inl error \<longrightarrow>
        rawResponse (scan_result tests w e S) = JObj [(''error'', JStr (error_text error))]
        \<and> statusCode (scan_result tests w e S) = None
        \<and> fst (runApiTest allTests w e []) =
            [\<lparr> cfg_method = method_name (http_method e), cfg_url = url e,
               cfg_headers = Some (filter (\<lambda>kv. fst kv \<notin> {''Authorization'', ''x-api-key'', ''api-key''})
                                     (spread (headers e))),
               cfg_data = JNull, cfg_timeout = 30000 \<rparr>,
             plain_config w e, cors_config e, plain_config w e,
             plain_config w e, plain_config w e, plain_config w e, plain_config w e,
             plain_config w e]
        \<and> cfg_data (plain_config w e) = JNull)"
proof -
  have "fst (runApiTest allTests w e []) =
          fst (initial_request w e) @ concat (map (\<lambda>test. fst (run test w e)) allTests)"
    by (simp add: runApiTest_def testsToRun_def)
  moreover have "body e = Some b \<and> b \<noteq> [] \<and> JSON_parse w b = Inl error \<Longrightarrow>
      initial_request w e = ([], None, JObj [(''error'', JStr (error_text error))])"
    by (simp add: initial_request_def)
  moreover have "body e = Some b \<and> b \<noteq> [] \<and> JSON_parse w b = Inl error \<Longrightarrow>
      probe_data w e = JNull"
    by (simp add: probe_data_def safeJsonParse_def)
  ultimately show ?thesis
    by (simp add: runApiTest_returns allTests_requests scan_result_def plain_config_def)
qed

text \<open>
  The body \<open>{broken\<close>: nine requests, none with the body.
\<close>

theorem runApiTest_absorbs_invalid_body_witness:
  "body bad_body_endpoint = Some ''{broken'' \<and> ''{broken'' \<noteq> []
   \<and> JSON_parse demo_world ''{broken'' = Inl (SyntaxError ''Unexpected token b in JSON at position 1'')
   \<and> rawResponse (scan_result allTests demo_world bad_body_endpoint [])
       = JObj [(''error'', JStr ''Unexpected token b in JSON at position 1'')]
   \<and> statusCode (scan_result allTests demo_world bad_body_endpoint []) = None
   \<and> length (fst (runApiTest allTests demo_world bad_body_endpoint [])) = 9
   \<and> map cfg_data (fst (runApiTest allTests demo_world bad_body_endpoint []))
       = [JNull, JNull, JUndefined, JNull, JNull, JNull, JNull, JNull, JNull]"
proof -
  have h: "body bad_body_endpoint = Some ''{broken'' \<and> ''{broken'' \<noteq> []
   \<and> JSON_parse demo_world ''{broken'' = Inl (SyntaxError ''Unexpected token b in JSON at position 1'')"
    by (simp add: bad_body_endpoint_def demo_world_def)
  from runApiTest_absorbs_invalid_body[of allTests demo_world bad_body_endpoint "[]" "''{broken''"
         "SyntaxError ''Unexpected token b in JSON at position 1''"] h
  show ?thesis by (simp add: cors_config_def)
qed

lemma testsToRun_around:
  assumes "S = [] \<or> test_id test \<in> set S"
  shows "testsToRun (before @ test # after) S = testsToRun before S @ test # testsToRun after S"
  using assms by (auto simp: testsToRun_def)

lemma demo_cors_result:
  "snd (corsTest_run demo_world e) =
     Inr \<lparr> name = ''CORS Configuration'', status = warning,
           description = ''Permissive CORS configuration'',
           details = Some ''API allows requests from any origin (*)'',
           severity = Some medium \<rparr>"
proof -
  have "cors_classify demo_response =
     Inr \<lparr> name = ''CORS Configuration'', status = warning,
           description = ''Permissive CORS configuration'',
           details = Some ''API allows requests from any origin (*)'',
           severity = Some medium \<rparr>"
    by (simp add: cors_classify_def demo_response_def nullish_def Let_def)
  then show ?thesis
    by (simp add: corsTest_run_def Let_def safeAxiosRequest_def demo_world_axios)
qed

text \<open>
  C7: for every registry and every probe in it that is selected and throws, the report is
  returned, with one finding for each probe to run; at the position of that probe stands the
  fallback finding with the name of the probe, status warning, description
  \<open>Test execution failed\<close>, the text of the error as details and severity medium; the
  findings before and after it are those of the other probes, in their order, the same as
  with any other probe in its place; and the finding of a probe that returns is what it
  returned.
\<close>

theorem runApiTest_isolates_failing_probe:
  assumes selected: "S = [] \<or> test_id test \<in> set S"
    and throws: "snd (run test w e) = Inl error"
  shows "snd (runApiTest (before @ test # after) w e S)
           = Inr (ScanResult_js (scan_result (before @ test # after) w e S))
    \<and> results (scan_result (before @ test # after) w e S)
        = map (run_test w e) (testsToRun before S)
          @ \<lparr> name = test_name test, status = warning, description = ''Test execution failed'',
              details = Some (error_text error), severity = Some medium \<rparr>
          # map (run_test w e) (testsToRun after S)
    \<and> (\<forall>other. S = [] \<or> test_id other \<in> set S \<longrightarrow>
          results (scan_result (before @ other # after) w e S)
          = map (run_test w e) (testsToRun before S)
            @ run_test w e other # map (run_test w e) (testsToRun after S))
    \<and> (\<forall>t result. snd (run t w e) = Inr result \<longrightarrow> run_test w e t = result)
    \<and> length (results (scan_result (before @ test # after) w e S))
        = length (testsToRun (before @ test # after) S)"
proof -
  have fallback: "run_test w e test =
      \<lparr> name = test_name test, status = warning, description = ''Test execution failed'',
        details = Some (error_text error), severity = Some medium \<rparr>"
    using throws by (simp add: run_test_def)
  have around: "results (scan_result (before @ t # after) w e S)
          = map (run_test w e) (testsToRun before S)
            @ run_test w e t # map (run_test w e) (testsToRun after S)"
    if "S = [] \<or> test_id t \<in> set S" for t
    using testsToRun_around[OF that, of before after] by (simp add: scan_result_def)
  have returned: "run_test w e t = result" if "snd (run t w e) = Inr result" for t result
    using that by (simp add: run_test_def)
  have len: "length (results (scan_result (before @ test # after) w e S))
        = length (testsToRun (before @ test # after) S)"
    by (simp add: scan_result_def)
  from around[OF selected] fallback around returned len show ?thesis
    by (simp add: runApiTest_returns)
qed

text \<open>
  A probe that always throws between two real ones: three findings, the fallback in the
  middle, the other two as their probes returned them.
\<close>

theorem runApiTest_isolates_failing_probe_witness:
  "snd (run failingTest demo_world demo_endpoint) = Inl (Error ''probe crashed'')
   \<and> snd (runApiTest ([authenticationTest] @ failingTest # [corsTest]) demo_world demo_endpoint [])
       = Inr (ScanResult_js
               (scan_result ([authenticationTest] @ failingTest # [corsTest])
                  demo_world demo_endpoint []))
   \<and> results (scan_result ([authenticationTest] @ failingTest # [corsTest])
                 demo_world demo_endpoint [])
       = [\<lparr> name = ''Authentication Check'', status = failed,
            description = ''API endpoint accessible without authentication'',
            details = Some ''Received status code 200 without authentication headers'',
            severity = Some high \<rparr>,
          \<lparr> name = ''Always Fails'', status = warning, description = ''Test execution failed'',
            details = Some ''probe crashed'', severity = Some medium \<rparr>,
          \<lparr> name = ''CORS Configuration'', status = warning,
            description = ''Permissive CORS configuration'',
            details = Some ''API allows requests from any origin (*)'',
            severity = Some medium \<rparr>]
   \<and> snd (run authenticationTest demo_world demo_endpoint)
       = Inr \<lparr> name = ''Authentication Check'', status = failed,
               description = ''API endpoint accessible without authentication'',
               details = Some ''Received status code 200 without authentication headers'',
               severity = Some high \<rparr>
   \<and> snd (run corsTest demo_world demo_endpoint)
       = Inr \<lparr> name = ''CORS Configuration'', status = warning,
               description = ''Permissive CORS configuration'',
               details = Some ''API allows requests from any origin (*)'',
               severity = Some medium \<rparr>"
proof -
  have throws: "snd (run failingTest demo_world demo_endpoint) = Inl (Error ''probe crashed'')"
    by (simp add: failingTest_def)
  have auth: "snd (run authenticationTest demo_world demo_endpoint)
       = Inr \<lparr> name = ''Authentication Check'', status = failed,
               description = ''API endpoint accessible without authentication'',
               details = Some ''Received status code 200 without authentication headers'',
               severity = Some high \<rparr>"
    by (simp add: authenticationTest_def demo_auth_result)
  have cors: "snd (run corsTest demo_world demo_endpoint)
       = Inr \<lparr> name = ''CORS Configuration'', status = warning,
               description = ''Permissive CORS configuration'',
               details = Some ''API allows requests from any origin (*)'',
               severity = Some medium \<rparr>"
    by (simp add: corsTest_def demo_cors_result)
  have names: "test_name failingTest = ''Always Fails''"
    by (simp add: failingTest_def)
  from runApiTest_isolates_failing_probe[of "[]" failingTest demo_world demo_endpoint
         "Error ''probe crashed''" "[authenticationTest]" "[corsTest]", OF _ throws]
    throws auth cors names
  show ?thesis
    by (simp add: testsToRun_def run_test_def)
qed

text \<open>
  C10: for every selection that is not empty, whatever ids it holds and however often,
  \<open>runApiTest\<close> raises nothing, and the findings are those of the registered probes whose id
  occurs in the selection, one for each, in the order of the registry; ids that no probe has
  are ignored, so there are at most as many findings as the selection is long.
\<close>

theorem runApiTest_ignores_unknown_ids:
  assumes "S \<noteq> []"
  shows "snd (runApiTest allTests w e S) = Inr (ScanResult_js (scan_result allTests w e S))
    \<and> results (scan_result allTests w e S)
        = map (run_test w e) (filter (\<lambda>test. test_id test \<in> set S) allTests)
    \<and> map name (results (scan_result allTests w e S))
        = map test_name (filter (\<lambda>test. test_id test \<in> set S) allTests)
    \<and> length (results (scan_result allTests w e S)) = card (set S \<inter> set (map test_id allTests))
    \<and> length (results (scan_result allTests w e S)) \<le> length S"
proof -
  have len: "length (filter (\<lambda>test. test_id test \<in> set S) allTests)
        = card (set S \<inter> set (map test_id allTests))"
    using length_filter_ids[OF allTests_distinct_ids, of "set S"] by simp
  have "card (set S \<inter> set (map test_id allTests)) \<le> card (set S)"
    by (rule card_mono) auto
  also have "\<dots> \<le> length S" by (rule card_length)
  finally have le: "card (set S \<inter> set (map test_id allTests)) \<le> length S" .
  show ?thesis using assms len le
    by (simp add: runApiTest_returns scan_result_def testsToRun_def run_test_name)
qed

text \<open>
  An unknown id and a duplicate: four ids selected, two findings.
\<close>

theorem runApiTest_ignores_unknown_ids_witness:
  "[''no-such-probe'', ''cors-check'', ''cors-check'', ''auth-check''] \<noteq> []
   \<and> map name (results (scan_result allTests demo_world demo_endpoint
                          [''no-such-probe'', ''cors-check'', ''cors-check'', ''auth-check'']))
       = [''Authentication Check'', ''CORS Configuration'']
   \<and> length (results (scan_result allTests demo_world demo_endpoint
                          [''no-such-probe'', ''cors-check'', ''cors-check'', ''auth-check''])) = 2"
proof -
  have sel: "filter (\<lambda>test. test_id test
                 \<in> set [''no-such-probe'', ''cors-check'', ''cors-check'', ''auth-check'']) allTests
        = [authenticationTest, corsTest]"
    by (simp add: allTests_def authenticationTest_def sensitiveDataTest_def corsTest_def
        securityHeadersTest_def rateLimitTest_def)
  have ne: "[''no-such-probe'', ''cors-check'', ''cors-check'', ''auth-check''] \<noteq> []" by simp
  from runApiTest_ignores_unknown_ids[OF ne, of demo_world demo_endpoint]
  have res: "results (scan_result allTests demo_world demo_endpoint
                 [''no-such-probe'', ''cors-check'', ''cors-check'', ''auth-check''])
        = map (run_test demo_world demo_endpoint)
            (filter (\<lambda>test. test_id test
               \<in> set [''no-such-probe'', ''cors-check'', ''cors-check'', ''auth-check'']) allTests)"
    and names: "map name (results (scan_result allTests demo_world demo_endpoint
                 [''no-such-probe'', ''cors-check'', ''cors-check'', ''auth-check'']))
        = map test_name (filter (\<lambda>test. test_id test
               \<in> set [''no-such-probe'', ''cors-check'', ''cors-check'', ''auth-check'']) allTests)"
    by blast+
  have "length (results (scan_result allTests demo_world demo_endpoint
                 [''no-such-probe'', ''cors-check'', ''cors-check'', ''auth-check''])) = 2"
    unfolding res sel by simp
  moreover have "map name (results (scan_result allTests demo_world demo_endpoint
                 [''no-such-probe'', ''cors-check'', ''cors-check'', ''auth-check'']))
        = [''Authentication Check'', ''CORS Configuration'']"
    unfolding names sel by (simp add: authenticationTest_def corsTest_def)
  ultimately show ?thesis using ne by simp
qed

end
